theory Spec2Isabelle
  imports Complex_Main "HOL-Library.Word"
begin

section \<open>Values that cross the wire\<close>

text \<open>
  The remote fault \<^verbatim>\<open>hpp::Error\<close> carries one message string. The wire transform
  \<^verbatim>\<open>Transform_\<close> is an array of seven doubles and \<^verbatim>\<open>Names_t\<close> a sequence of
  strings. The array is a list here, which has seven elements when it is well formed.
  A double is modelled as a real: the operations below only store the numbers and read
  them back, they never compute with them.
\<close>

datatype Error = Error string

type_synonym Transform_ = "real list"

type_synonym Names_t = "string list"

section \<open>Geometry and kinematic objects used by the implementation\<close>

text \<open>
  Modelled from the spec: the geometry types come from the fcl library and are not part
  of the repository. A transform is a quaternion and a translation vector and keeps
  the numbers it was built from (nothing is renormalized). A vector and a quaternion
  are the numbers their constructors are given, in the order the source passes them,
  and \<^verbatim>\<open>operator []\<close> reads the number stored at that position. Which position of a
  quaternion holds which component is fcl's business and is not fixed here.
\<close>

datatype Vec3f = Vec3f real real real

datatype Quaternion3f = Quaternion3f real real real real

datatype Transform3f = Transform3f Quaternion3f Vec3f

fun Vec3f_at :: "Vec3f \<Rightarrow> nat \<Rightarrow> real" where
  "Vec3f_at (Vec3f a b c) i = [a, b, c] ! i"

fun Quaternion3f_at :: "Quaternion3f \<Rightarrow> nat \<Rightarrow> real" where
  "Quaternion3f_at (Quaternion3f a b c d) i = [a, b, c, d] ! i"

fun getTranslation :: "Transform3f \<Rightarrow> Vec3f" where
  "getTranslation (Transform3f q v) = v"

fun getQuatRotation :: "Transform3f \<Rightarrow> Quaternion3f" where
  "getQuatRotation (Transform3f q v) = q"

text \<open>
  Modelled from the spec: joints, handles, grippers and devices belong to the model
  libraries, not to the repository; their fields are the ones the specification's data
  model names and the source uses. Joints are shared objects: a device, a handle and a
  gripper all point to them. A joint pointer is an address into the joint store of the
  device, \<open>None\<close> the null pointer.
\<close>

type_synonym JointPtr_t = "nat option"

datatype JointType = JointAnchor | JointMobile

record Joint =
  jointName :: string
  jointType :: JointType
  linkedBody :: "string option"
  positionInParentFrame :: Transform3f
  childJoints :: "nat list"

datatype HandleClass = PlainHandle | AxialHandle

record Handle =
  handleName :: string
  localPosition :: Transform3f
  handleJoint :: JointPtr_t
  handleClass :: HandleClass

record Gripper =
  gripperName :: string
  gripperJoint :: JointPtr_t
  objectPositionInJoint :: Transform3f
  disabledCollisions :: "JointPtr_t list"

record CollisionObject =
  collisionGeometry :: nat
  getTransform :: Transform3f
  objectName :: string

datatype TriangleList = TriangleList nat

record Device =
  deviceName :: string
  rootJoint :: JointPtr_t
  jointVector :: "nat list"
  jointStore :: "nat \<rightharpoonup> Joint"
  handles :: "string \<rightharpoonup> Handle"
  grippers :: "string \<rightharpoonup> Gripper"
  collisionObjects :: "CollisionObject list"
  triangleLists :: "(string \<times> TriangleList) list"

definition Device_create :: "string \<Rightarrow> Device" where
  "Device_create n =
     \<lparr>deviceName = n, rootJoint = None, jointVector = [], jointStore = Map.empty,
      handles = Map.empty, grippers = Map.empty, collisionObjects = [],
      triangleLists = []\<rparr>"

text \<open>\<^verbatim>\<open>ObjectFactory::createJointAnchor (t)\<close>: a new anchor joint placed at \<open>t\<close>, with no
  name yet, no body and no child.\<close>

definition createJointAnchor :: "Transform3f \<Rightarrow> Joint" where
  "createJointAnchor t =
     \<lparr>jointName = [], jointType = JointAnchor, linkedBody = None,
      positionInParentFrame = t, childJoints = []\<rparr>"

definition newJointAddress :: "Device \<Rightarrow> nat" where
  "newJointAddress r = (if jointVector r = [] then 0 else Suc (Max (set (jointVector r))))"

text \<open>\<^verbatim>\<open>r->rootJoint (rj)\<close>: the device takes the joint into its store and makes it the
  root.\<close>

definition Device_rootJoint :: "Joint \<Rightarrow> Device \<Rightarrow> Device" where
  "Device_rootJoint rj r =
     (let a = newJointAddress r in
      r\<lparr>rootJoint := Some a, jointVector := jointVector r @ [a],
        jointStore := (jointStore r)(a \<mapsto> rj)\<rparr>)"

text \<open>Dereferencing a joint pointer. A null or dangling pointer is undefined behaviour
  in the source and unspecified here.\<close>

definition jointAt :: "Device \<Rightarrow> nat \<Rightarrow> Joint" where
  "jointAt r a = the (jointStore r a)"

section \<open>The problem session\<close>

text \<open>
  Modelled from the spec: the session (\<^verbatim>\<open>ProblemSolver\<close>) belongs to the planning
  library. It owns the robot, if one was loaded, the obstacles, the named contact
  surfaces, the map of named constraints, the list of paths, which only grows, and the
  planning state a reset discards (the graph selection and the goal override). A
  constraint is a relative pose constraint between a gripper and a handle, with the
  mask of the six degrees of freedom it constrains (three translations, then the
  rotations about x, y and z).
\<close>

datatype Constraint = RelativePose string string "bool list"

datatype Path = Path nat

record ProblemSolver =
  robot :: "Device option"
  obstacles :: "(CollisionObject \<times> bool \<times> bool) list"
  contactSurfaces :: "string \<rightharpoonup> TriangleList"
  numericalConstraints :: "string \<rightharpoonup> Constraint"
  paths :: "Path list"
  constraintSelection :: "nat option"
  targetState :: "nat option"
  resetProblemCalls :: nat

definition ProblemSolver_create :: ProblemSolver where
  "ProblemSolver_create =
     \<lparr>robot = None, obstacles = [], contactSurfaces = Map.empty,
      numericalConstraints = Map.empty, paths = [], constraintSelection = None,
      targetState = None, resetProblemCalls = 0\<rparr>"

text \<open>
  Modelled from the spec: \<^verbatim>\<open>ProblemSolver::resetProblem\<close> is the planning library's.
  It discards the mutable planning state of the session (graph selection, goal
  override) and keeps the loaded robot and the obstacles. The counter
  \<open>resetProblemCalls\<close> records that the call happened.
\<close>

definition resetProblem :: "ProblemSolver \<Rightarrow> ProblemSolver" where
  "resetProblem p =
     p\<lparr>constraintSelection := None, targetState := None,
       resetProblemCalls := Suc (resetProblemCalls p)\<rparr>"

text \<open>\<^verbatim>\<open>addObstacle\<close> appends to the obstacles; \<^verbatim>\<open>add\<close> with a triangle list stores a
  contact surface under its name.\<close>

definition addObstacle :: "CollisionObject \<Rightarrow> bool \<Rightarrow> bool \<Rightarrow> ProblemSolver \<Rightarrow> ProblemSolver" where
  "addObstacle obj collision distance p = p\<lparr>obstacles := obstacles p @ [(obj, collision, distance)]\<rparr>"

definition add_TriangleList :: "string \<Rightarrow> TriangleList \<Rightarrow> ProblemSolver \<Rightarrow> ProblemSolver" where
  "add_TriangleList n l p = p\<lparr>contactSurfaces := (contactSurfaces p)(n \<mapsto> l)\<rparr>"

section \<open>The robot interface (robot.impl.cc)\<close>

text \<open>
  What the implementation calls and the repository does not hold is a parameter: the
  value \<^verbatim>\<open>t.setIdentity ()\<close> leaves in a transform, the lookup
  \<^verbatim>\<open>Device::getJointByBodyName\<close> of the model library, and the four loaders of the
  \<^verbatim>\<open>srdf\<close> namespace. A call of a parameter yields \<open>Inl w\<close> when it threw an
  exception with message \<open>w\<close>. The lookup otherwise returns a joint pointer; nothing
  is assumed here about what it does with a body the device does not have (it may
  throw, it may return the null pointer). A loader works on the device it is given
  through a pointer, so it also returns the device as it left it.
\<close>

record ModelArgs =
  modelRobotName :: string
  rootJointType :: string
  packageName :: string
  modelName :: string
  urdfSuffix :: string
  srdfSuffix :: string

type_synonym Loader = "Device \<Rightarrow> JointPtr_t \<Rightarrow> ModelArgs \<Rightarrow> (string + unit) \<times> Device"

record External =
  setIdentity :: Transform3f
  getJointByBodyName :: "Device \<Rightarrow> string \<Rightarrow> string + JointPtr_t"
  srdf_loadRobotModel :: Loader
  srdf_loadObjectModel :: Loader
  srdf_loadHumanoidModel :: Loader
  srdf_loadEnvironmentModel ::
    "Device \<Rightarrow> string \<Rightarrow> string \<Rightarrow> string \<Rightarrow> string \<Rightarrow> (string + unit) \<times> Device"

definition getOrCreateRobot :: "External \<Rightarrow> ProblemSolver \<Rightarrow> Device \<times> ProblemSolver" where
  "getOrCreateRobot ext p =
     (case robot p of
        Some r \<Rightarrow> (r, p)
      | None \<Rightarrow>
          (let r = Device_create ''Robot'';
               t = setIdentity ext;
               rj = createJointAnchor t;
               rj = rj\<lparr>jointName := ''base_joint''\<rparr>;
               r = Device_rootJoint rj r
           in (r, p\<lparr>robot := Some r\<rparr>)))"

definition getRobotOrThrow :: "ProblemSolver \<Rightarrow> Error + Device" where
  "getRobotOrThrow p =
     (case robot p of None \<Rightarrow> Inl (Error ''Robot not found.'') | Some r \<Rightarrow> Inr r)"

text \<open>An exception of the lookup reaches the catch clause of the operation that called
  the helper, which turns it into the fault with the same message.\<close>

definition getJointByBodyNameOrThrow :: "External \<Rightarrow> ProblemSolver \<Rightarrow> string \<Rightarrow> Error + nat" where
  "getJointByBodyNameOrThrow ext p n =
     (case getRobotOrThrow p of
        Inl e \<Rightarrow> Inl e
      | Inr r \<Rightarrow>
          (case getJointByBodyName ext r n of
             Inl w \<Rightarrow> Inl (Error w)
           | Inr None \<Rightarrow> Inl (Error ''Joint not found.'')
           | Inr (Some j) \<Rightarrow> Inr j))"

text \<open>The robot of the session is reached through a pointer: what the loader did to
  the device stays, also when it threw.\<close>

definition insertRobotModel :: "External \<Rightarrow> ModelArgs \<Rightarrow> ProblemSolver
    \<Rightarrow> (Error + unit) \<times> ProblemSolver" where
  "insertRobotModel ext args p =
     (let (r, p1) = getOrCreateRobot ext p in
      case srdf_loadRobotModel ext r (rootJoint r) args of
        (Inl w, r') \<Rightarrow> (Inl (Error w), p1\<lparr>robot := Some r'\<rparr>)
      | (Inr u, r') \<Rightarrow> (Inr (), resetProblem (p1\<lparr>robot := Some r'\<rparr>)))"

definition insertObjectModel :: "External \<Rightarrow> ModelArgs \<Rightarrow> ProblemSolver
    \<Rightarrow> (Error + unit) \<times> ProblemSolver" where
  "insertObjectModel ext args p =
     (let (r, p1) = getOrCreateRobot ext p in
      case srdf_loadObjectModel ext r (rootJoint r) args of
        (Inl w, r') \<Rightarrow> (Inl (Error w), p1\<lparr>robot := Some r'\<rparr>)
      | (Inr u, r') \<Rightarrow> (Inr (), resetProblem (p1\<lparr>robot := Some r'\<rparr>)))"

definition insertHumanoidModel :: "External \<Rightarrow> ModelArgs \<Rightarrow> ProblemSolver
    \<Rightarrow> (Error + unit) \<times> ProblemSolver" where
  "insertHumanoidModel ext args p =
     (let (r, p1) = getOrCreateRobot ext p in
      case srdf_loadHumanoidModel ext r (rootJoint r) args of
        (Inl w, r') \<Rightarrow> (Inl (Error w), p1\<lparr>robot := Some r'\<rparr>)
      | (Inr u, r') \<Rightarrow> (Inr (), resetProblem (p1\<lparr>robot := Some r'\<rparr>)))"

text \<open>The three insert operations differ only in the loader they call; this is their
  common shape, used to reason about the three at once.\<close>

definition insertModel :: "Loader \<Rightarrow> External \<Rightarrow> ModelArgs \<Rightarrow> ProblemSolver
    \<Rightarrow> (Error + unit) \<times> ProblemSolver" where
  "insertModel load ext args p =
     (let (r, p1) = getOrCreateRobot ext p in
      case load r (rootJoint r) args of
        (Inl w, r') \<Rightarrow> (Inl (Error w), p1\<lparr>robot := Some r'\<rparr>)
      | (Inr u, r') \<Rightarrow> (Inr (), resetProblem (p1\<lparr>robot := Some r'\<rparr>)))"

definition CollisionObject_create :: "nat \<Rightarrow> Transform3f \<Rightarrow> string \<Rightarrow> CollisionObject" where
  "CollisionObject_create g t n = \<lparr>collisionGeometry = g, getTransform = t, objectName = n\<rparr>"

definition loadEnvironmentModel :: "External \<Rightarrow> string \<Rightarrow> string \<Rightarrow> string \<Rightarrow> string
    \<Rightarrow> string \<Rightarrow> ProblemSolver \<Rightarrow> (Error + unit) \<times> ProblemSolver" where
  "loadEnvironmentModel ext package envModelName urdfSfx srdfSfx prefix p =
     (let object = Device_create envModelName in
      case srdf_loadEnvironmentModel ext object package envModelName urdfSfx srdfSfx of
        (Inl w, object') \<Rightarrow> (Inl (Error w), p)
      | (Inr u, object') \<Rightarrow>
          (let p1 = fold (\<lambda>itObj q.
                       addObstacle (CollisionObject_create (collisionGeometry itObj)
                           (getTransform itObj) (prefix @ objectName itObj)) True True q)
                     (collisionObjects object') p;
               p2 = fold (\<lambda>it q. add_TriangleList (prefix @ fst it) (snd it) q)
                     (triangleLists object') p1
           in (Inr (), p2)))"

text \<open>
  \<^verbatim>\<open>name.compare (0, n.size (), n) == 0\<close>: the first \<open>n.size ()\<close> characters of
  the name (all of it when it is shorter) are the string \<open>n\<close>.
\<close>

definition compare_is_0 :: "string \<Rightarrow> nat \<Rightarrow> nat \<Rightarrow> string \<Rightarrow> bool" where
  "compare_is_0 s pos len str = (take len (drop pos s) = str)"

text \<open>The scan both root joint operations run over the children of the root: the
  first child whose name starts with \<open>n\<close>, the null pointer when there is none.\<close>

fun findRootChild :: "Device \<Rightarrow> nat list \<Rightarrow> string \<Rightarrow> JointPtr_t" where
  "findRootChild r [] n = None"
| "findRootChild r (c # cs) n =
     (if compare_is_0 (jointName (jointAt r c)) 0 (length n) n then Some c
      else findRootChild r cs n)"

definition getRootJointPosition :: "string \<Rightarrow> ProblemSolver \<Rightarrow> Error + Transform_" where
  "getRootJointPosition robotName p =
     (case getRobotOrThrow p of
        Inl e \<Rightarrow> Inl e
      | Inr r \<Rightarrow>
          (let n = robotName;
               root = jointAt r (the (rootJoint r))
           in case findRootChild r (childJoints root) n of
                None \<Rightarrow> Inl (Error ''Root of subtree with the provided prefix not found'')
              | Some joint \<Rightarrow>
                  (let T = positionInParentFrame (jointAt r joint)
                   in Inr [Vec3f_at (getTranslation T) 0,
                           Vec3f_at (getTranslation T) 1,
                           Vec3f_at (getTranslation T) 2,
                           Quaternion3f_at (getQuatRotation T) 0,
                           Quaternion3f_at (getQuatRotation T) 1,
                           Quaternion3f_at (getQuatRotation T) 2,
                           Quaternion3f_at (getQuatRotation T) 3])))"

definition setRootJointPosition :: "string \<Rightarrow> Transform_ \<Rightarrow> ProblemSolver
    \<Rightarrow> (Error + unit) \<times> ProblemSolver" where
  "setRootJointPosition robotName position p =
     (case getRobotOrThrow p of
        Inl e \<Rightarrow> (Inl e, p)
      | Inr r \<Rightarrow>
          (let n = robotName;
               root = jointAt r (the (rootJoint r))
           in case findRootChild r (childJoints root) n of
                None \<Rightarrow>
                  (Inl (Error ''Root of subtree with the provided prefix not found''), p)
              | Some joint \<Rightarrow>
                  (let q = Quaternion3f (position ! 3) (position ! 4)
                             (position ! 5) (position ! 6);
                       v = Vec3f (position ! 0) (position ! 1) (position ! 2);
                       j = (jointAt r joint)\<lparr>positionInParentFrame := Transform3f q v\<rparr>
                   in (Inr (),
                       p\<lparr>robot := Some (r\<lparr>jointStore := (jointStore r)(joint \<mapsto> j)\<rparr>)\<rparr>))))"

definition Handle_create :: "string \<Rightarrow> Transform3f \<Rightarrow> nat \<Rightarrow> Handle" where
  "Handle_create n t j =
     \<lparr>handleName = n, localPosition = t, handleJoint = Some j, handleClass = PlainHandle\<rparr>"

definition AxialHandle_create :: "string \<Rightarrow> Transform3f \<Rightarrow> nat \<Rightarrow> Handle" where
  "AxialHandle_create n t j =
     \<lparr>handleName = n, localPosition = t, handleJoint = Some j, handleClass = AxialHandle\<rparr>"

definition Gripper_create :: "string \<Rightarrow> nat \<Rightarrow> Transform3f \<Rightarrow> JointPtr_t list \<Rightarrow> Gripper" where
  "Gripper_create n j t js =
     \<lparr>gripperName = n, gripperJoint = Some j, objectPositionInJoint = t,
      disabledCollisions = js\<rparr>"

text \<open>\<^verbatim>\<open>robot->add (name, element)\<close> stores the element under the name in the
  device's container of that element type; an entry of the same name is replaced.\<close>

definition add_Handle :: "string \<Rightarrow> Handle \<Rightarrow> Device \<Rightarrow> Device" where
  "add_Handle n h r = r\<lparr>handles := (handles r)(n \<mapsto> h)\<rparr>"

definition add_Gripper :: "string \<Rightarrow> Gripper \<Rightarrow> Device \<Rightarrow> Device" where
  "add_Gripper n g r = r\<lparr>grippers := (grippers r)(n \<mapsto> g)\<rparr>"

definition addHandle :: "External \<Rightarrow> string \<Rightarrow> string \<Rightarrow> Transform_ \<Rightarrow> ProblemSolver
    \<Rightarrow> (Error + unit) \<times> ProblemSolver" where
  "addHandle ext linkName hName localPos p =
     (case getRobotOrThrow p of
        Inl e \<Rightarrow> (Inl e, p)
      | Inr r \<Rightarrow>
          (case getJointByBodyNameOrThrow ext p linkName of
             Inl e \<Rightarrow> (Inl e, p)
           | Inr joint \<Rightarrow>
               (let q = Quaternion3f (localPos ! 3) (localPos ! 4)
                          (localPos ! 5) (localPos ! 6);
                    v = Vec3f (localPos ! 0) (localPos ! 1) (localPos ! 2);
                    handle = Handle_create hName (Transform3f q v) joint
                in (Inr (), p\<lparr>robot := Some (add_Handle hName handle r)\<rparr>))))"

text \<open>The loop of \<open>addGripper\<close> over the body names: each name is looked up on the
  robot and what the lookup returns is pushed onto the vector; an exception of the
  lookup ends the loop.\<close>

fun jointInCollisionLoop :: "(string \<Rightarrow> string + JointPtr_t) \<Rightarrow> Names_t \<Rightarrow> JointPtr_t list
    \<Rightarrow> string + JointPtr_t list" where
  "jointInCollisionLoop look [] jointInCollision = Inr jointInCollision"
| "jointInCollisionLoop look (bodyName # rest) jointInCollision =
     (case look bodyName of
        Inl w \<Rightarrow> Inl w
      | Inr j \<Rightarrow> jointInCollisionLoop look rest (jointInCollision @ [j]))"

definition addGripper :: "External \<Rightarrow> string \<Rightarrow> string \<Rightarrow> Transform_ \<Rightarrow> Names_t \<Rightarrow> ProblemSolver
    \<Rightarrow> (Error + unit) \<times> ProblemSolver" where
  "addGripper ext linkName gName pos bodyInCollisionNames p =
     (case getRobotOrThrow p of
        Inl e \<Rightarrow> (Inl e, p)
      | Inr r \<Rightarrow>
          (case getJointByBodyNameOrThrow ext p linkName of
             Inl e \<Rightarrow> (Inl e, p)
           | Inr joint \<Rightarrow>
               (let q = Quaternion3f (pos ! 3) (pos ! 4) (pos ! 5) (pos ! 6);
                    v = Vec3f (pos ! 0) (pos ! 1) (pos ! 2)
                in case jointInCollisionLoop (getJointByBodyName ext r) bodyInCollisionNames [] of
                     Inl w \<Rightarrow> (Inl (Error w), p)
                   | Inr jointInCollision \<Rightarrow>
                       (let gripper = Gripper_create gName joint (Transform3f q v)
                                        jointInCollision
                        in (Inr (), p\<lparr>robot := Some (add_Gripper gName gripper r)\<rparr>)))))"

definition addAxialHandle :: "External \<Rightarrow> string \<Rightarrow> string \<Rightarrow> Transform_ \<Rightarrow> ProblemSolver
    \<Rightarrow> (Error + unit) \<times> ProblemSolver" where
  "addAxialHandle ext linkName hName localPos p =
     (case getRobotOrThrow p of
        Inl e \<Rightarrow> (Inl e, p)
      | Inr r \<Rightarrow>
          (case getJointByBodyNameOrThrow ext p linkName of
             Inl e \<Rightarrow> (Inl e, p)
           | Inr joint \<Rightarrow>
               (let q = Quaternion3f (localPos ! 3) (localPos ! 4)
                          (localPos ! 5) (localPos ! 6);
                    v = Vec3f (localPos ! 0) (localPos ! 1) (localPos ! 2);
                    handle = AxialHandle_create hName (Transform3f q v) joint
                in (Inr (), p\<lparr>robot := Some (add_Handle hName handle r)\<rparr>))))"

section \<open>The server process (hpp-manipulation-corba.cc)\<close>

text \<open>
  The problem registry of the primary server maps a name to a session and holds the
  name that is selected. In the process the sessions are objects reached through
  pointers: a pointer is an address with the class of the object it points to.
\<close>

text \<open>The fields \<^verbatim>\<open>map_\<close> and \<^verbatim>\<open>selected_\<close> of the source are \<open>mapField\<close> and
  \<open>selectedField\<close> here.\<close>

record 'ps ProblemSolverMap =
  mapField :: "string \<rightharpoonup> 'ps"
  selectedField :: "string option"

datatype SolverClass = ManipulationProblemSolver | CoreProblemSolver

datatype SolverPtr = SolverPtr nat SolverClass

text \<open>
  The two feature macros come from a header that is not part of the repository: a
  macro is undefined (\<open>None\<close>) or defined with a value, which the preprocessor
  evaluates in 64 bits. The source tests the first with \<^verbatim>\<open>#if\<close> (defined and not
  zero) and the second with \<^verbatim>\<open>#ifdef\<close> (defined).
\<close>

record BuildConfig =
  HPP_MANIPULATION_HAS_WHOLEBODY_STEP :: "64 word option"
  HPP_MANIPULATION_HAS_RBPRM :: "64 word option"

definition pp_if :: "64 word option \<Rightarrow> bool" where
  "pp_if m = (case m of None \<Rightarrow> False | Some v \<Rightarrow> v \<noteq> 0)"

definition pp_ifdef :: "64 word option \<Rightarrow> bool" where
  "pp_ifdef m = (m \<noteq> None)"

datatype ServerId = CorbaServer | ManipulationServer | WholebodyStepServer | RbprmServer

datatype Binding = ToProblemSolverMap | ToProblemSolver SolverPtr

datatype Event = StartCorbaServer ServerId "string list" | ProcessRequest bool

text \<open>
  The state of the process: the one registry object that
  \<^verbatim>\<open>corbaServer.problemSolverMap ()\<close> points to, what each server was bound to, and the
  calls that start a listener or the request loop, in the order they were made.
\<close>

record Process =
  problemSolverMap :: "SolverPtr ProblemSolverMap"
  bindings :: "ServerId \<rightharpoonup> Binding"
  events :: "Event list"

definition bind :: "ServerId \<Rightarrow> Binding \<Rightarrow> Process \<Rightarrow> Process" where
  "bind srv b s = s\<lparr>bindings := (bindings s)(srv \<mapsto> b)\<rparr>"

definition call :: "Event \<Rightarrow> Process \<Rightarrow> Process" where
  "call e s = s\<lparr>events := events s @ [e]\<rparr>"

definition map_insert :: "string \<Rightarrow> SolverPtr \<Rightarrow> Process \<Rightarrow> Process" where
  "map_insert n ps s =
     s\<lparr>problemSolverMap :=
         (problemSolverMap s)\<lparr>mapField := (mapField (problemSolverMap s))(n \<mapsto> ps)\<rparr>\<rparr>"

text \<open>
  The statements of \<^verbatim>\<open>main\<close> up to the request loop. The registry that the constructor
  of the primary server builds around the first session is a parameter (\<open>ctor\<close>): the
  constructor belongs to another package.
\<close>

definition startup :: "BuildConfig \<Rightarrow> (SolverPtr \<Rightarrow> SolverPtr ProblemSolverMap) \<Rightarrow> Process" where
  "startup cfg ctor =
     (let problemSolver = SolverPtr 0 ManipulationProblemSolver;
          s = \<lparr>problemSolverMap = ctor problemSolver,
               bindings = [CorbaServer \<mapsto> ToProblemSolverMap], events = []\<rparr>;
          s = bind ManipulationServer ToProblemSolverMap s;
          s = call (StartCorbaServer CorbaServer []) s;
          s = (if pp_if (HPP_MANIPULATION_HAS_WHOLEBODY_STEP cfg) then
                 call (StartCorbaServer WholebodyStepServer
                         [''hpp'', ''corbaserver'', ''wholebodyStep'', ''problem''])
                   (bind WholebodyStepServer ToProblemSolverMap s)
               else s);
          s = (if pp_ifdef (HPP_MANIPULATION_HAS_RBPRM cfg) then
                 (let problemSolverRbprm = SolverPtr 1 CoreProblemSolver;
                      s = map_insert ''rbprm'' problemSolverRbprm s;
                      s = bind RbprmServer (ToProblemSolver problemSolverRbprm) s
                  in call (StartCorbaServer RbprmServer [''hpp'', ''corbaserver'', ''rbprm'']) s)
               else s)
      in call (StartCorbaServer ManipulationServer
                 [''hpp'', ''corbaserver'', ''manipulation'']) s)"

definition main :: "BuildConfig \<Rightarrow> (SolverPtr \<Rightarrow> SolverPtr ProblemSolverMap) \<Rightarrow> Process" where
  "main cfg ctor = call (ProcessRequest True) (startup cfg ctor)"

text \<open>The session a request reaches when it names none: the one the registry has
  selected.\<close>

definition currentSession :: "'ps ProblemSolverMap \<Rightarrow> 'ps option" where
  "currentSession m = (case selectedField m of None \<Rightarrow> None | Some n \<Rightarrow> mapField m n)"

section \<open>The problem interface (declared in problem.idl)\<close>

text \<open>
  Modelled from the spec: the implementation of \<^verbatim>\<open>selectProblem\<close> is not among the
  sources, only its declaration is. If the name is absent, an empty session is created
  under it and made current, and the result is true; if it is present, it is made
  current, the session is not touched, and the result is false.
\<close>

definition selectProblem :: "string \<Rightarrow> ProblemSolver ProblemSolverMap
    \<Rightarrow> bool \<times> ProblemSolver ProblemSolverMap" where
  "selectProblem n m =
     (case mapField m n of
        None \<Rightarrow>
          (True, m\<lparr>mapField := (mapField m)(n \<mapsto> ProblemSolver_create),
                   selectedField := Some n\<rparr>)
      | Some ps \<Rightarrow> (False, m\<lparr>selectedField := Some n\<rparr>))"

text \<open>A client session: the names it selects, one after the other.\<close>

fun selectAll :: "string list \<Rightarrow> ProblemSolver ProblemSolverMap \<Rightarrow> ProblemSolver ProblemSolverMap" where
  "selectAll [] m = m"
| "selectAll (n # ns) m = selectAll ns (snd (selectProblem n m))"

text \<open>
  Modelled from the spec: the degrees of freedom a handle leaves free. A plain handle
  leaves none; an axial handle leaves the rotation about its local x axis.
\<close>

definition freeDof :: "HandleClass \<Rightarrow> bool list" where
  "freeDof c =
     (case c of
        PlainHandle \<Rightarrow> [False, False, False, False, False, False]
      | AxialHandle \<Rightarrow> [False, False, False, True, False, False])"

text \<open>
  Modelled from the spec: the implementation of \<^verbatim>\<open>createGrasp\<close> is not among the
  sources, only its declaration is. It looks the gripper and the handle up (a fault
  when either is absent) and stores two constraints derived from the handle's class:
  under \<open>graspName\<close> the pose constraint without the handle's free degrees of freedom,
  under \<open>graspName/complement\<close> the constraint over exactly the free ones.
\<close>

definition createGrasp :: "string \<Rightarrow> string \<Rightarrow> string \<Rightarrow> ProblemSolver
    \<Rightarrow> (Error + unit) \<times> ProblemSolver" where
  "createGrasp graspName gName hName p =
     (case robot p of
        None \<Rightarrow> (Inl (Error ''NotFound''), p)
      | Some r \<Rightarrow>
          (case grippers r gName of
             None \<Rightarrow> (Inl (Error ''NotFound''), p)
           | Some g \<Rightarrow>
               (case handles r hName of
                  None \<Rightarrow> (Inl (Error ''NotFound''), p)
                | Some h \<Rightarrow>
                    (let free = freeDof (handleClass h);
                         grasp = RelativePose gName hName (map Not free);
                         complement = RelativePose gName hName free
                     in (Inr (),
                         p\<lparr>numericalConstraints :=
                             (numericalConstraints p)
                               (graspName \<mapsto> grasp,
                                graspName @ ''/complement'' \<mapsto> complement)\<rparr>)))))"

text \<open>
  Modelled from the spec: the implementation of \<^verbatim>\<open>buildAndProjectPath\<close> is not among
  the sources, only its declaration is. The edge's path builder and the projection
  onto the edge's constraints belong to the planner and are parameters; \<open>None\<close> is
  their failure. The built path is appended before the projection is tried, the
  projected path is appended after it. An index is the position in the path list, -1
  stands for no path.
\<close>

type_synonym ID = int

type_synonym floatSeq = "real list"

record EdgeMethods =
  build :: "ID \<Rightarrow> floatSeq \<Rightarrow> floatSeq \<Rightarrow> Path option"
  project :: "ID \<Rightarrow> Path \<Rightarrow> Path option"

definition buildAndProjectPath :: "EdgeMethods \<Rightarrow> ID \<Rightarrow> floatSeq \<Rightarrow> floatSeq \<Rightarrow> ProblemSolver
    \<Rightarrow> (bool \<times> int \<times> int) \<times> ProblemSolver" where
  "buildAndProjectPath em IDedge qb qe p =
     (case build em IDedge qb qe of
        None \<Rightarrow> ((False, - 1, - 1), p)
      | Some path \<Rightarrow>
          (let indexNotProj = int (length (paths p));
               p1 = p\<lparr>paths := paths p @ [path]\<rparr>
           in case project em IDedge path of
                None \<Rightarrow> ((False, indexNotProj, - 1), p1)
              | Some projPath \<Rightarrow>
                  (let indexProj = int (length (paths p1));
                       p2 = p1\<lparr>paths := paths p1 @ [projPath]\<rparr>
                   in ((True, indexNotProj, indexProj), p2))))"

section \<open>Sample collaborators and sessions\<close>

text \<open>A loader that hangs one joint, carrying one body, under the root it is given;
  the names are built from the robot name.\<close>

definition sampleTransform :: Transform3f where
  "sampleTransform = Transform3f (Quaternion3f 0 0 0 1) (Vec3f 0 0 0)"

definition sampleLoader :: Loader where
  "sampleLoader r rootPtr args =
     (let a = newJointAddress r;
          j = \<lparr>jointName = modelRobotName args @ ''/base_joint_xyz'',
               jointType = JointMobile,
               linkedBody = Some (modelRobotName args @ ''/base_link''),
               positionInParentFrame = sampleTransform, childJoints = []\<rparr>;
          rj = jointAt r (the rootPtr)
      in (Inr (),
          r\<lparr>jointVector := jointVector r @ [a],
            jointStore := (jointStore r)
              (the rootPtr \<mapsto> rj\<lparr>childJoints := childJoints rj @ [a]\<rparr>, a \<mapsto> j)\<rparr>))"

definition sampleEnvLoader ::
    "Device \<Rightarrow> string \<Rightarrow> string \<Rightarrow> string \<Rightarrow> string \<Rightarrow> (string + unit) \<times> Device" where
  "sampleEnvLoader object package envModelName urdfSfx srdfSfx =
     (Inr (),
      object\<lparr>collisionObjects :=
               [\<lparr>collisionGeometry = 7, getTransform = sampleTransform,
                 objectName = ''table_link_0''\<rparr>],
             triangleLists := [(''table_surface'', TriangleList 3)]\<rparr>)"

text \<open>A lookup that searches the joints of the device for the body and throws when
  there is none.\<close>

definition sampleLookup :: "Device \<Rightarrow> string \<Rightarrow> string + JointPtr_t" where
  "sampleLookup r n =
     (case find (\<lambda>a. linkedBody (jointAt r a) = Some n) (jointVector r) of
        Some a \<Rightarrow> Inr (Some a)
      | None \<Rightarrow> Inl (''Device '' @ deviceName r @ '' has no joint with body of name '' @ n))"

definition sampleExternal :: External where
  "sampleExternal =
     \<lparr>setIdentity = sampleTransform, getJointByBodyName = sampleLookup,
      srdf_loadRobotModel = sampleLoader,
      srdf_loadObjectModel = sampleLoader, srdf_loadHumanoidModel = sampleLoader,
      srdf_loadEnvironmentModel = sampleEnvLoader\<rparr>"

definition sampleArgs :: ModelArgs where
  "sampleArgs =
     \<lparr>modelRobotName = ''ur5'', rootJointType = ''anchor'', packageName = ''ur_description'',
      modelName = ''ur5'', urdfSuffix = [], srdfSuffix = []\<rparr>"

text \<open>The session after \<open>insertRobotModel\<close> with the sample loader on an empty one.\<close>

definition sampleSession :: ProblemSolver where
  "sampleSession = snd (insertRobotModel sampleExternal sampleArgs ProblemSolver_create)"

definition samplePose :: Transform_ where
  "samplePose = [1, 2, 3, 0, 0, 0, 1]"

definition sampleEdgeMethods :: EdgeMethods where
  "sampleEdgeMethods =
     \<lparr>build = (\<lambda>e qb qe. if e = 0 then None else Some (Path 10)),
      project = (\<lambda>e path. if e = 1 then None else Some (Path 11))\<rparr>"

definition sampleRegistry :: "SolverPtr \<Rightarrow> SolverPtr ProblemSolverMap" where
  "sampleRegistry ps = \<lparr>mapField = [''default'' \<mapsto> ps], selectedField = Some ''default''\<rparr>"

definition sampleConfig :: BuildConfig where
  "sampleConfig =
     \<lparr>HPP_MANIPULATION_HAS_WHOLEBODY_STEP = Some 0, HPP_MANIPULATION_HAS_RBPRM = Some 1\<rparr>"

text \<open>A session whose robot holds one gripper and one axial handle.\<close>

definition sampleGraspSession :: ProblemSolver where
  "sampleGraspSession =
     ProblemSolver_create
       \<lparr>robot := Some ((Device_create ''Robot'')
          \<lparr>handles := [''box/handle'' \<mapsto> AxialHandle_create ''box/handle'' sampleTransform 2],
           grippers := [''ur5/gripper'' \<mapsto> Gripper_create ''ur5/gripper'' 1 sampleTransform []]\<rparr>)\<rparr>"

text \<open>Collaborators whose robot loader throws before it touches the device.\<close>

definition failingExternal :: External where
  "failingExternal =
     sampleExternal\<lparr>srdf_loadRobotModel := (\<lambda>r rootPtr args. (Inl ''cannot read urdf'', r))\<rparr>"

section \<open>Properties\<close>

lemma getOrCreateRobot_present: "robot p = Some r \<Longrightarrow> getOrCreateRobot ext p = (r, p)"
  by (simp add: getOrCreateRobot_def)

lemma insertRobotModel_insertModel:
  "insertRobotModel ext args p = insertModel (srdf_loadRobotModel ext) ext args p"
  by (simp add: insertRobotModel_def insertModel_def)

lemma insertObjectModel_insertModel:
  "insertObjectModel ext args p = insertModel (srdf_loadObjectModel ext) ext args p"
  by (simp add: insertObjectModel_def insertModel_def)

lemma insertHumanoidModel_insertModel:
  "insertHumanoidModel ext args p = insertModel (srdf_loadHumanoidModel ext) ext args p"
  by (simp add: insertHumanoidModel_def insertModel_def)

lemma compare_is_0_prefix:
  "compare_is_0 s 0 (length n) n \<longleftrightarrow> (\<exists>t. s = n @ t)"
  unfolding compare_is_0_def
  by (metis append_eq_conv_conj append_take_drop_id drop0)

lemma getOrCreateRobot_absent:
  "robot p = None \<Longrightarrow>
   getOrCreateRobot ext p =
     (Device_rootJoint ((createJointAnchor (setIdentity ext))\<lparr>jointName := ''base_joint''\<rparr>)
        (Device_create ''Robot''),
      p\<lparr>robot := Some (Device_rootJoint
          ((createJointAnchor (setIdentity ext))\<lparr>jointName := ''base_joint''\<rparr>)
          (Device_create ''Robot''))\<rparr>)"
  by (simp add: getOrCreateRobot_def Let_def)

lemma created_robot_shape:
  "Device_rootJoint ((createJointAnchor t)\<lparr>jointName := ''base_joint''\<rparr>) (Device_create ''Robot'') =
     \<lparr>deviceName = ''Robot'', rootJoint = Some 0, jointVector = [0],
      jointStore = [0 \<mapsto> \<lparr>jointName = ''base_joint'', jointType = JointAnchor,
         linkedBody = None, positionInParentFrame = t, childJoints = []\<rparr>],
      handles = Map.empty, grippers = Map.empty, collisionObjects = [], triangleLists = []\<rparr>"
  by (simp add: Device_rootJoint_def Device_create_def createJointAnchor_def newJointAddress_def)

lemma robot_snd_getOrCreateRobot:
  "robot (snd (getOrCreateRobot ext p)) = Some (fst (getOrCreateRobot ext p))"
  by (cases "robot p") (simp_all add: getOrCreateRobot_def Let_def)

lemma snd_getOrCreateRobot_update:
  "(snd (getOrCreateRobot ext p))\<lparr>robot := Some r'\<rparr> = p\<lparr>robot := Some r'\<rparr>"
  by (cases "robot p") (simp_all add: getOrCreateRobot_def Let_def)

lemma insertModel_cases:
  "insertModel load ext args p =
     (let r = fst (getOrCreateRobot ext p);
          res = load r (rootJoint r) args
      in case fst res of
           Inl w \<Rightarrow> (Inl (Error w), p\<lparr>robot := Some (snd res)\<rparr>)
         | Inr u \<Rightarrow> (Inr (), resetProblem (p\<lparr>robot := Some (snd res)\<rparr>)))"
proof (cases "robot p")
  case None
  then show ?thesis
    by (simp add: insertModel_def getOrCreateRobot_def Let_def split: prod.splits sum.splits)
next
  case (Some r)
  then show ?thesis
    by (auto simp: insertModel_def getOrCreateRobot_def Let_def split: prod.splits sum.splits)
qed

lemma insertModel_success:
  assumes "insertModel load ext args p = (Inr (), p')"
  shows "p' = resetProblem (p\<lparr>robot := Some (snd (load (fst (getOrCreateRobot ext p))
            (rootJoint (fst (getOrCreateRobot ext p))) args))\<rparr>)"
  using assms unfolding insertModel_cases Let_def by (auto split: sum.splits)

subsection \<open>Loading models\<close>

lemma fold_addObstacle_frame:
  "robot (fold (\<lambda>itObj q. addObstacle (f itObj) c d q) xs p) = robot p \<and>
   resetProblemCalls (fold (\<lambda>itObj q. addObstacle (f itObj) c d q) xs p) = resetProblemCalls p"
  by (induction xs arbitrary: p) (simp_all add: addObstacle_def)

lemma fold_add_TriangleList_frame:
  "robot (fold (\<lambda>it q. add_TriangleList (f it) (g it) q) xs p) = robot p \<and>
   resetProblemCalls (fold (\<lambda>it q. add_TriangleList (f it) (g it) q) xs p) = resetProblemCalls p"
  by (induction xs arbitrary: p) (simp_all add: add_TriangleList_def)

lemma loadEnvironmentModel_frame:
  "robot (snd (loadEnvironmentModel ext pkg env u s pre p)) = robot p \<and>
   resetProblemCalls (snd (loadEnvironmentModel ext pkg env u s pre p)) = resetProblemCalls p"
  unfolding loadEnvironmentModel_def Let_def
  by (simp add: fold_addObstacle_frame fold_add_TriangleList_frame split: prod.splits sum.splits)

lemma insertModel_reset:
  assumes "insertModel load ext args p = (Inr (), p')"
  shows "resetProblemCalls p' = Suc (resetProblemCalls p) \<and>
     robot p' = Some (snd (load (fst (getOrCreateRobot ext p))
                  (rootJoint (fst (getOrCreateRobot ext p))) args)) \<and>
     p' = resetProblem (p\<lparr>robot := robot p'\<rparr>)"
  using insertModel_success[OF assms] by (simp add: resetProblem_def)

text \<open>
  Claim C1, as the code has it. A successful \<open>insertRobotModel\<close>, \<open>insertObjectModel\<close>
  or \<open>insertHumanoidModel\<close> calls \<open>resetProblem\<close> on its session once, and leaves as
  the session's robot the device its loader worked on: the robot the session had, or,
  when it had none, the device named Robot that \<open>getOrCreateRobot\<close> creates.
  \<open>loadEnvironmentModel\<close> is different: it loads into a device of its own, and the
  session keeps the robot it had (or none) and sees no call of \<open>resetProblem\<close>.
\<close>

theorem insert_model_resets_and_creates_robot:
  "(\<forall>p'. insertRobotModel ext args p = (Inr (), p') \<longrightarrow>
      resetProblemCalls p' = Suc (resetProblemCalls p) \<and>
      robot p' = Some (snd (srdf_loadRobotModel ext (fst (getOrCreateRobot ext p))
                   (rootJoint (fst (getOrCreateRobot ext p))) args)) \<and>
      p' = resetProblem (p\<lparr>robot := robot p'\<rparr>)) \<and>
   (\<forall>p'. insertObjectModel ext args p = (Inr (), p') \<longrightarrow>
      resetProblemCalls p' = Suc (resetProblemCalls p) \<and>
      robot p' = Some (snd (srdf_loadObjectModel ext (fst (getOrCreateRobot ext p))
                   (rootJoint (fst (getOrCreateRobot ext p))) args)) \<and>
      p' = resetProblem (p\<lparr>robot := robot p'\<rparr>)) \<and>
   (\<forall>p'. insertHumanoidModel ext args p = (Inr (), p') \<longrightarrow>
      resetProblemCalls p' = Suc (resetProblemCalls p) \<and>
      robot p' = Some (snd (srdf_loadHumanoidModel ext (fst (getOrCreateRobot ext p))
                   (rootJoint (fst (getOrCreateRobot ext p))) args)) \<and>
      p' = resetProblem (p\<lparr>robot := robot p'\<rparr>)) \<and>
   (\<forall>r. robot p = Some r \<longrightarrow> fst (getOrCreateRobot ext p) = r) \<and>
   (robot p = None \<longrightarrow>
      deviceName (fst (getOrCreateRobot ext p)) = ''Robot'' \<and>
      rootJoint (fst (getOrCreateRobot ext p)) = Some 0) \<and>
   robot (snd (loadEnvironmentModel ext pkg env u s pre p)) = robot p \<and>
   resetProblemCalls (snd (loadEnvironmentModel ext pkg env u s pre p)) = resetProblemCalls p"
proof -
  have a: "\<forall>r. robot p = Some r \<longrightarrow> fst (getOrCreateRobot ext p) = r"
    by (simp add: getOrCreateRobot_present)
  have b: "robot p = None \<longrightarrow>
      deviceName (fst (getOrCreateRobot ext p)) = ''Robot'' \<and>
      rootJoint (fst (getOrCreateRobot ext p)) = Some 0"
    by (simp add: getOrCreateRobot_absent created_robot_shape)
  show ?thesis
    unfolding insertRobotModel_insertModel insertObjectModel_insertModel insertHumanoidModel_insertModel
    using a b loadEnvironmentModel_frame[of ext pkg env u s pre p]
      insertModel_reset[of "srdf_loadRobotModel ext" ext args p]
      insertModel_reset[of "srdf_loadObjectModel ext" ext args p]
      insertModel_reset[of "srdf_loadHumanoidModel ext" ext args p]
    by blast
qed

lemma sample_insert: "fst (insertRobotModel sampleExternal sampleArgs ProblemSolver_create) = Inr ()"
  by (simp add: insertRobotModel_insertModel insertModel_cases Let_def sampleExternal_def sampleLoader_def)

text \<open>An instance: the first \<open>insertRobotModel\<close> on an empty session.\<close>

theorem insert_model_resets_and_creates_robot_witness:
  "insertRobotModel sampleExternal sampleArgs ProblemSolver_create = (Inr (), sampleSession) \<and>
   resetProblemCalls sampleSession = Suc (resetProblemCalls ProblemSolver_create) \<and>
   robot sampleSession \<noteq> None \<and>
   robot ProblemSolver_create = None"
proof -
  have e: "insertRobotModel sampleExternal sampleArgs ProblemSolver_create = (Inr (), sampleSession)"
    using sample_insert by (simp add: sampleSession_def prod_eq_iff)
  have n: "robot ProblemSolver_create = None" by (simp add: ProblemSolver_create_def)
  from insert_model_resets_and_creates_robot[of sampleExternal sampleArgs ProblemSolver_create]
  show ?thesis using e n by simp
qed

text \<open>
  Claim C1 as stated fails for \<open>loadEnvironmentModel\<close>: on an empty session the call
  succeeds, and afterwards the session still has no robot and \<open>resetProblem\<close> was not
  called.
\<close>

theorem loadEnvironmentModel_no_reset_counterexample:
  "fst (loadEnvironmentModel sampleExternal ''iai_maps'' ''kitchen_area'' [] [] ''kitchen/''
          ProblemSolver_create) = Inr () \<and>
   robot (snd (loadEnvironmentModel sampleExternal ''iai_maps'' ''kitchen_area'' [] []
          ''kitchen/'' ProblemSolver_create)) = None \<and>
   resetProblemCalls (snd (loadEnvironmentModel sampleExternal ''iai_maps'' ''kitchen_area'' [] []
          ''kitchen/'' ProblemSolver_create)) = 0"
  by (simp add: loadEnvironmentModel_def sampleExternal_def sampleEnvLoader_def Device_create_def
      ProblemSolver_create_def addObstacle_def add_TriangleList_def CollisionObject_create_def)

subsection \<open>Lazy creation of the robot\<close>

text \<open>
  Claim C10. On a session without a robot, \<open>getOrCreateRobot\<close> creates the device named
  Robot, whose root is an anchor joint named base_joint placed at the identity
  transform, and stores it on the session; this is the device the loaders of
  \<open>insertRobotModel\<close>, \<open>insertObjectModel\<close> and \<open>insertHumanoidModel\<close> then work on. On
  a session that has a robot, \<open>getOrCreateRobot\<close> returns that robot and leaves the
  session, and with it the robot's root, as it is: calling it again right after the
  creation changes nothing.
\<close>

theorem getOrCreateRobot_creates_base_joint_once:
  "(robot p = None \<longrightarrow>
      robot (snd (getOrCreateRobot ext p)) = Some (fst (getOrCreateRobot ext p)) \<and>
      snd (getOrCreateRobot ext p) = p\<lparr>robot := Some (fst (getOrCreateRobot ext p))\<rparr> \<and>
      deviceName (fst (getOrCreateRobot ext p)) = ''Robot'' \<and>
      rootJoint (fst (getOrCreateRobot ext p)) = Some 0 \<and>
      jointStore (fst (getOrCreateRobot ext p)) 0 =
        Some \<lparr>jointName = ''base_joint'', jointType = JointAnchor, linkedBody = None,
              positionInParentFrame = setIdentity ext, childJoints = []\<rparr> \<and>
      getOrCreateRobot ext (snd (getOrCreateRobot ext p)) = getOrCreateRobot ext p \<and>
      robot (snd (insertRobotModel ext args p)) =
        Some (snd (srdf_loadRobotModel ext (fst (getOrCreateRobot ext p)) (Some 0) args)) \<and>
      robot (snd (insertObjectModel ext args p)) =
        Some (snd (srdf_loadObjectModel ext (fst (getOrCreateRobot ext p)) (Some 0) args)) \<and>
      robot (snd (insertHumanoidModel ext args p)) =
        Some (snd (srdf_loadHumanoidModel ext (fst (getOrCreateRobot ext p)) (Some 0) args))) \<and>
   (\<forall>r. robot p = Some r \<longrightarrow> getOrCreateRobot ext p = (r, p))"
proof -
  have later: "\<forall>r. robot p = Some r \<longrightarrow> getOrCreateRobot ext p = (r, p)"
    by (simp add: getOrCreateRobot_present)
  have ins: "robot (snd (insertModel load ext args p)) =
      Some (snd (load (fst (getOrCreateRobot ext p)) (rootJoint (fst (getOrCreateRobot ext p))) args))"
    for load
    by (simp add: insertModel_cases Let_def resetProblem_def split: sum.splits)
  have first: "robot p = None \<Longrightarrow>
      robot (snd (getOrCreateRobot ext p)) = Some (fst (getOrCreateRobot ext p)) \<and>
      snd (getOrCreateRobot ext p) = p\<lparr>robot := Some (fst (getOrCreateRobot ext p))\<rparr> \<and>
      deviceName (fst (getOrCreateRobot ext p)) = ''Robot'' \<and>
      rootJoint (fst (getOrCreateRobot ext p)) = Some 0 \<and>
      jointStore (fst (getOrCreateRobot ext p)) 0 =
        Some \<lparr>jointName = ''base_joint'', jointType = JointAnchor, linkedBody = None,
              positionInParentFrame = setIdentity ext, childJoints = []\<rparr>"
    by (simp add: getOrCreateRobot_absent created_robot_shape)
  have again: "getOrCreateRobot ext (snd (getOrCreateRobot ext p)) = getOrCreateRobot ext p"
    if "robot p = None"
    by (simp add: getOrCreateRobot_present[OF robot_snd_getOrCreateRobot] prod_eq_iff
        robot_snd_getOrCreateRobot)
  show ?thesis
    using later first again
    by (simp add: insertRobotModel_insertModel insertObjectModel_insertModel insertHumanoidModel_insertModel ins)
qed

text \<open>An instance: the empty session.\<close>

theorem getOrCreateRobot_creates_base_joint_once_witness:
  "robot ProblemSolver_create = None \<and>
   deviceName (fst (getOrCreateRobot sampleExternal ProblemSolver_create)) = ''Robot'' \<and>
   jointStore (fst (getOrCreateRobot sampleExternal ProblemSolver_create)) 0 =
        Some \<lparr>jointName = ''base_joint'', jointType = JointAnchor, linkedBody = None,
              positionInParentFrame = sampleTransform, childJoints = []\<rparr> \<and>
   getOrCreateRobot sampleExternal (snd (getOrCreateRobot sampleExternal ProblemSolver_create)) =
     getOrCreateRobot sampleExternal ProblemSolver_create"
proof -
  have n: "robot ProblemSolver_create = None" by (simp add: ProblemSolver_create_def)
  have i: "setIdentity sampleExternal = sampleTransform" by (simp add: sampleExternal_def)
  have "deviceName (fst (getOrCreateRobot sampleExternal ProblemSolver_create)) = ''Robot'' \<and>
   jointStore (fst (getOrCreateRobot sampleExternal ProblemSolver_create)) 0 =
        Some \<lparr>jointName = ''base_joint'', jointType = JointAnchor, linkedBody = None,
              positionInParentFrame = setIdentity sampleExternal, childJoints = []\<rparr> \<and>
   getOrCreateRobot sampleExternal (snd (getOrCreateRobot sampleExternal ProblemSolver_create)) =
     getOrCreateRobot sampleExternal ProblemSolver_create"
    using getOrCreateRobot_creates_base_joint_once[of ProblemSolver_create sampleExternal sampleArgs] n
    by blast
  then show ?thesis using n by (simp only: i simp_thms)
qed

subsection \<open>Handles and grippers\<close>

lemma sampleSession_robot:
  "robot sampleSession =
     Some \<lparr>deviceName = ''Robot'', rootJoint = Some 0, jointVector = [0, 1],
       jointStore =
         [0 \<mapsto> \<lparr>jointName = ''base_joint'', jointType = JointAnchor, linkedBody = None,
                 positionInParentFrame = sampleTransform, childJoints = [1]\<rparr>,
          1 \<mapsto> \<lparr>jointName = ''ur5/base_joint_xyz'', jointType = JointMobile,
                 linkedBody = Some ''ur5/base_link'',
                 positionInParentFrame = sampleTransform, childJoints = []\<rparr>],
       handles = Map.empty, grippers = Map.empty, collisionObjects = [], triangleLists = []\<rparr>"
  by (simp add: sampleSession_def insertRobotModel_insertModel insertModel_cases Let_def
      getOrCreateRobot_absent ProblemSolver_create_def created_robot_shape sampleExternal_def
      sampleLoader_def newJointAddress_def jointAt_def sampleArgs_def resetProblem_def)

lemma sampleSession_base_link:
  "getJointByBodyName sampleExternal (the (robot sampleSession)) ''ur5/base_link'' = Inr (Some 1)"
  by (simp add: sampleSession_robot sampleExternal_def sampleLookup_def jointAt_def)

lemma sampleSession_no_such_body:
  "getJointByBodyName sampleExternal (the (robot sampleSession)) ''no_such_body'' =
     Inl ''Device Robot has no joint with body of name no_such_body''"
  by (simp add: sampleSession_robot sampleExternal_def sampleLookup_def jointAt_def)

lemma sampleLookup_never_null: "getJointByBodyName sampleExternal r n \<noteq> Inr None"
  by (simp add: sampleExternal_def sampleLookup_def split: option.splits)

lemma addHandle_no_robot:
  "robot p = None \<Longrightarrow>
   addHandle ext linkName hName localPos p = (Inl (Error ''Robot not found.''), p)"
  by (simp add: addHandle_def getRobotOrThrow_def)

lemma addHandle_found:
  "robot p = Some r \<Longrightarrow> getJointByBodyName ext r linkName = Inr (Some j) \<Longrightarrow>
   addHandle ext linkName hName localPos p =
     (Inr (), p\<lparr>robot := Some (add_Handle hName
        (Handle_create hName
           (Transform3f (Quaternion3f (localPos ! 3) (localPos ! 4) (localPos ! 5) (localPos ! 6))
              (Vec3f (localPos ! 0) (localPos ! 1) (localPos ! 2))) j) r)\<rparr>)"
  by (simp add: addHandle_def getRobotOrThrow_def getJointByBodyNameOrThrow_def Let_def)

text \<open>
  Claim C8. On a session without a robot, \<open>addHandle\<close> fails with the fault
  "Robot not found." and leaves the session as it was. When \<open>insertRobotModel\<close> has then
  succeeded on that session and the robot it left has a joint carrying the body
  \<open>linkName\<close>, the same call succeeds and the robot holds, under \<open>hName\<close>, the plain
  handle of that name on that joint with the decoded local position; nothing else of
  the session changes.
\<close>

theorem addHandle_needs_robot_then_succeeds:
  "(robot p = None \<longrightarrow>
      addHandle ext linkName hName localPos p = (Inl (Error ''Robot not found.''), p)) \<and>
   (\<forall>p' r' j. robot p = None \<and> insertRobotModel ext args p = (Inr (), p') \<and>
        robot p' = Some r' \<and> getJointByBodyName ext r' linkName = Inr (Some j) \<longrightarrow>
      fst (addHandle ext linkName hName localPos p') = Inr () \<and>
      handles (the (robot (snd (addHandle ext linkName hName localPos p')))) hName =
        Some \<lparr>handleName = hName,
              localPosition =
                Transform3f (Quaternion3f (localPos ! 3) (localPos ! 4) (localPos ! 5) (localPos ! 6))
                  (Vec3f (localPos ! 0) (localPos ! 1) (localPos ! 2)),
              handleJoint = Some j, handleClass = PlainHandle\<rparr> \<and>
      snd (addHandle ext linkName hName localPos p') =
        p'\<lparr>robot := Some (r'\<lparr>handles := (handles r')(hName \<mapsto>
               the (handles (the (robot (snd (addHandle ext linkName hName localPos p')))) hName))\<rparr>)\<rparr>)"
  by (auto simp: addHandle_no_robot addHandle_found add_Handle_def Handle_create_def)

text \<open>An instance: the empty session, then the sample loader.\<close>

theorem addHandle_needs_robot_then_succeeds_witness:
  "robot ProblemSolver_create = None \<and>
   addHandle sampleExternal ''ur5/base_link'' ''ur5/handle'' samplePose ProblemSolver_create =
     (Inl (Error ''Robot not found.''), ProblemSolver_create) \<and>
   insertRobotModel sampleExternal sampleArgs ProblemSolver_create = (Inr (), sampleSession) \<and>
   fst (addHandle sampleExternal ''ur5/base_link'' ''ur5/handle'' samplePose sampleSession) = Inr () \<and>
   handles (the (robot (snd (addHandle sampleExternal ''ur5/base_link'' ''ur5/handle'' samplePose
       sampleSession)))) ''ur5/handle'' =
     Some \<lparr>handleName = ''ur5/handle'',
           localPosition = Transform3f (Quaternion3f 0 0 0 1) (Vec3f 1 2 3),
           handleJoint = Some 1, handleClass = PlainHandle\<rparr>"
proof -
  have n: "robot ProblemSolver_create = None" by (simp add: ProblemSolver_create_def)
  have e: "insertRobotModel sampleExternal sampleArgs ProblemSolver_create = (Inr (), sampleSession)"
    using sample_insert by (simp add: sampleSession_def prod_eq_iff)
  have r: "robot sampleSession = Some (the (robot sampleSession))"
    by (simp add: sampleSession_robot)
  have pose: "samplePose ! 0 = 1" "samplePose ! 1 = 2" "samplePose ! 2 = 3" "samplePose ! 3 = 0"
    "samplePose ! 4 = 0" "samplePose ! 5 = 0" "samplePose ! 6 = 1"
    by (simp_all add: samplePose_def)
  have t: "robot ProblemSolver_create = None \<and>
      insertRobotModel sampleExternal sampleArgs ProblemSolver_create = (Inr (), sampleSession) \<and>
      robot sampleSession = Some (the (robot sampleSession)) \<and>
      getJointByBodyName sampleExternal (the (robot sampleSession)) ''ur5/base_link'' =
        Inr (Some 1)"
    using n e r sampleSession_base_link by blast
  have "addHandle sampleExternal ''ur5/base_link'' ''ur5/handle'' samplePose ProblemSolver_create =
     (Inl (Error ''Robot not found.''), ProblemSolver_create) \<and>
   fst (addHandle sampleExternal ''ur5/base_link'' ''ur5/handle'' samplePose sampleSession) = Inr () \<and>
   handles (the (robot (snd (addHandle sampleExternal ''ur5/base_link'' ''ur5/handle'' samplePose
       sampleSession)))) ''ur5/handle'' =
     Some \<lparr>handleName = ''ur5/handle'',
           localPosition = Transform3f (Quaternion3f (samplePose ! 3) (samplePose ! 4)
               (samplePose ! 5) (samplePose ! 6))
             (Vec3f (samplePose ! 0) (samplePose ! 1) (samplePose ! 2)),
           handleJoint = Some 1, handleClass = PlainHandle\<rparr>"
    using addHandle_needs_robot_then_succeeds[of ProblemSolver_create sampleExternal
        "''ur5/base_link''" "''ur5/handle''" samplePose sampleArgs] n t
    by blast
  then show ?thesis using n e by (simp only: pose simp_thms)
qed

lemma jointInCollisionLoop_returned:
  "(\<forall>n \<in> set names. \<exists>j. look n = Inr j) \<Longrightarrow>
   jointInCollisionLoop look names js = Inr (js @ map (\<lambda>n. projr (look n)) names)"
  by (induction names arbitrary: js) auto

lemma jointInCollisionLoop_thrown:
  "n \<in> set names \<Longrightarrow> look n = Inl w \<Longrightarrow> \<exists>w'. jointInCollisionLoop look names js = Inl w'"
  by (induction names arbitrary: js) (auto split: sum.splits)

lemma jointInCollisionLoop_first_thrown:
  "(\<forall>u \<in> set us. \<exists>j. look u = Inr j) \<Longrightarrow> look n = Inl w \<Longrightarrow>
   jointInCollisionLoop look (us @ n # vs) js = Inl w"
  by (induction us arbitrary: js) auto

text \<open>\<open>addGripper\<close> makes no test of its own on what the lookup returns for an entry:
  whatever pointers the lookup returns are the joints of the gripper.\<close>

lemma addGripper_found:
  "robot p = Some r \<Longrightarrow> getJointByBodyName ext r linkName = Inr (Some j) \<Longrightarrow>
   (\<forall>n \<in> set names. \<exists>k. getJointByBodyName ext r n = Inr k) \<Longrightarrow>
   addGripper ext linkName gName pos names p =
     (Inr (), p\<lparr>robot := Some (add_Gripper gName
        (Gripper_create gName j
           (Transform3f (Quaternion3f (pos ! 3) (pos ! 4) (pos ! 5) (pos ! 6))
              (Vec3f (pos ! 0) (pos ! 1) (pos ! 2)))
           (map (\<lambda>n. projr (getJointByBodyName ext r n)) names)) r)\<rparr>)"
  by (simp add: addGripper_def getRobotOrThrow_def getJointByBodyNameOrThrow_def Let_def
      jointInCollisionLoop_returned)

lemma addGripper_thrown:
  "robot p = Some r \<Longrightarrow> getJointByBodyName ext r linkName = Inr (Some j) \<Longrightarrow>
   jointInCollisionLoop (getJointByBodyName ext r) names [] = Inl w \<Longrightarrow>
   addGripper ext linkName gName pos names p = (Inl (Error w), p)"
  by (simp add: addGripper_def getRobotOrThrow_def getJointByBodyNameOrThrow_def Let_def)

text \<open>
  Claim C5. Take a session with a robot on which the attachment link resolves, and a
  lookup that fails on a body it cannot resolve: it throws, it never returns the null
  pointer. Then \<open>addGripper\<close> looks every entry of \<open>names\<close> up. If some entry does not
  resolve to a joint, the call fails with a fault and the session is as it was, so no
  gripper is registered; the fault is the one of the first entry that does not
  resolve. If every entry resolves, the call succeeds and registers under \<open>gName\<close>
  the gripper on the attachment joint with the joints the entries resolved to. So the
  call succeeds exactly when all entries resolve.
\<close>

theorem addGripper_fails_unless_all_bodies_resolve:
  assumes "robot p = Some r"
    and "getJointByBodyName ext r linkName = Inr (Some joint)"
    and "\<forall>n. getJointByBodyName ext r n \<noteq> Inr None"
  shows "((\<exists>n \<in> set names. \<forall>a. getJointByBodyName ext r n \<noteq> Inr (Some a)) \<longrightarrow>
            (\<exists>w. addGripper ext linkName gName pos names p = (Inl (Error w), p))) \<and>
         (\<forall>us n vs w. names = us @ n # vs \<and>
              (\<forall>u \<in> set us. \<exists>a. getJointByBodyName ext r u = Inr (Some a)) \<and>
              getJointByBodyName ext r n = Inl w \<longrightarrow>
            addGripper ext linkName gName pos names p = (Inl (Error w), p)) \<and>
         ((\<forall>n \<in> set names. \<exists>a. getJointByBodyName ext r n = Inr (Some a)) \<longrightarrow>
            addGripper ext linkName gName pos names p =
              (Inr (), p\<lparr>robot := Some (r\<lparr>grippers := (grippers r)(gName \<mapsto>
                 \<lparr>gripperName = gName, gripperJoint = Some joint,
                  objectPositionInJoint =
                    Transform3f (Quaternion3f (pos ! 3) (pos ! 4) (pos ! 5) (pos ! 6))
                      (Vec3f (pos ! 0) (pos ! 1) (pos ! 2)),
                  disabledCollisions =
                    map (\<lambda>n. projr (getJointByBodyName ext r n)) names\<rparr>)\<rparr>)\<rparr>) \<and>
            None \<notin> set (map (\<lambda>n. projr (getJointByBodyName ext r n)) names)) \<and>
         (fst (addGripper ext linkName gName pos names p) = Inr () \<longleftrightarrow>
            (\<forall>n \<in> set names. \<exists>a. getJointByBodyName ext r n = Inr (Some a)))"
proof -
  let ?look = "getJointByBodyName ext r"
  have unresolved: "\<exists>w. ?look n = Inl w" if "\<forall>a. ?look n \<noteq> Inr (Some a)" for n
  proof (cases "?look n")
    case (Inl w)
    then show ?thesis by blast
  next
    case (Inr k)
    with that assms(3) show ?thesis by (cases k) auto
  qed
  have fails: "\<exists>w. addGripper ext linkName gName pos names p = (Inl (Error w), p)"
    if "\<exists>n \<in> set names. \<forall>a. ?look n \<noteq> Inr (Some a)"
  proof -
    from that unresolved obtain n w where nw: "n \<in> set names" "?look n = Inl w" by blast
    from jointInCollisionLoop_thrown[where look = "?look" and js = "[]", OF nw] obtain w' where
      "jointInCollisionLoop ?look names [] = Inl w'" by blast
    from addGripper_thrown[OF assms(1,2) this] show ?thesis by blast
  qed
  have first: "addGripper ext linkName gName pos names p = (Inl (Error w), p)"
    if "names = us @ n # vs" "\<forall>u \<in> set us. \<exists>a. ?look u = Inr (Some a)" "?look n = Inl w"
    for us n vs w
  proof -
    from that(2) have "\<forall>u \<in> set us. \<exists>j. ?look u = Inr j" by blast
    from jointInCollisionLoop_first_thrown[where look = "?look" and js = "[]" and vs = vs,
        OF this that(3)]
    have "jointInCollisionLoop ?look names [] = Inl w" by (simp add: that(1))
    from addGripper_thrown[OF assms(1,2) this] show ?thesis .
  qed
  have succeeds: "addGripper ext linkName gName pos names p =
              (Inr (), p\<lparr>robot := Some (r\<lparr>grippers := (grippers r)(gName \<mapsto>
                 \<lparr>gripperName = gName, gripperJoint = Some joint,
                  objectPositionInJoint =
                    Transform3f (Quaternion3f (pos ! 3) (pos ! 4) (pos ! 5) (pos ! 6))
                      (Vec3f (pos ! 0) (pos ! 1) (pos ! 2)),
                  disabledCollisions = map (\<lambda>n. projr (?look n)) names\<rparr>)\<rparr>)\<rparr>) \<and>
            None \<notin> set (map (\<lambda>n. projr (?look n)) names)"
    if all: "\<forall>n \<in> set names. \<exists>a. ?look n = Inr (Some a)"
  proof -
    from all have "\<forall>n \<in> set names. \<exists>k. ?look n = Inr k" by blast
    from addGripper_found[OF assms(1,2) this]
    have "addGripper ext linkName gName pos names p =
              (Inr (), p\<lparr>robot := Some (r\<lparr>grippers := (grippers r)(gName \<mapsto>
                 \<lparr>gripperName = gName, gripperJoint = Some joint,
                  objectPositionInJoint =
                    Transform3f (Quaternion3f (pos ! 3) (pos ! 4) (pos ! 5) (pos ! 6))
                      (Vec3f (pos ! 0) (pos ! 1) (pos ! 2)),
                  disabledCollisions = map (\<lambda>n. projr (?look n)) names\<rparr>)\<rparr>)\<rparr>)"
      by (simp add: add_Gripper_def Gripper_create_def)
    moreover from all have "None \<notin> set (map (\<lambda>n. projr (?look n)) names)" by force
    ultimately show ?thesis by blast
  qed
  have iff: "fst (addGripper ext linkName gName pos names p) = Inr () \<longleftrightarrow>
      (\<forall>n \<in> set names. \<exists>a. ?look n = Inr (Some a))"
  proof
    assume ok: "fst (addGripper ext linkName gName pos names p) = Inr ()"
    show "\<forall>n \<in> set names. \<exists>a. ?look n = Inr (Some a)"
    proof (rule ccontr)
      assume "\<not> (\<forall>n \<in> set names. \<exists>a. ?look n = Inr (Some a))"
      then have "\<exists>n \<in> set names. \<forall>a. ?look n \<noteq> Inr (Some a)" by blast
      from fails[OF this] ok show False by auto
    qed
  next
    assume "\<forall>n \<in> set names. \<exists>a. ?look n = Inr (Some a)"
    from succeeds[OF this] show "fst (addGripper ext linkName gName pos names p) = Inr ()"
      by simp
  qed
  from fails first succeeds iff show ?thesis by blast
qed

text \<open>An instance: on the sample robot, an entry naming no body makes the call fail
  and leaves the session; without that entry the gripper is registered.\<close>

theorem addGripper_fails_unless_all_bodies_resolve_witness:
  "addGripper sampleExternal ''ur5/base_link'' ''ur5/gripper'' samplePose
       [''ur5/base_link'', ''no_such_body''] sampleSession =
     (Inl (Error ''Device Robot has no joint with body of name no_such_body''), sampleSession) \<and>
   fst (addGripper sampleExternal ''ur5/base_link'' ''ur5/gripper'' samplePose
       [''ur5/base_link''] sampleSession) = Inr ()"
proof -
  have r: "robot sampleSession = Some (the (robot sampleSession))"
    by (simp add: sampleSession_robot)
  have nn: "\<forall>n. getJointByBodyName sampleExternal (the (robot sampleSession)) n \<noteq> Inr None"
    by (simp add: sampleLookup_never_null)
  note t1 = addGripper_fails_unless_all_bodies_resolve[OF r sampleSession_base_link nn,
      of "[''ur5/base_link'', ''no_such_body'']" "''ur5/gripper''" samplePose]
  note t2 = addGripper_fails_unless_all_bodies_resolve[OF r sampleSession_base_link nn,
      of "[''ur5/base_link'']" "''ur5/gripper''" samplePose]
  have split: "[''ur5/base_link'', ''no_such_body''] = [''ur5/base_link''] @ ''no_such_body'' # [] \<and>
      (\<forall>u \<in> set [''ur5/base_link''].
         \<exists>a. getJointByBodyName sampleExternal (the (robot sampleSession)) u = Inr (Some a)) \<and>
      getJointByBodyName sampleExternal (the (robot sampleSession)) ''no_such_body'' =
        Inl ''Device Robot has no joint with body of name no_such_body''"
    using sampleSession_base_link sampleSession_no_such_body by simp
  from t1[THEN conjunct2, THEN conjunct1, THEN spec, THEN spec, THEN spec, THEN spec,
      THEN mp, OF split]
  have a: "addGripper sampleExternal ''ur5/base_link'' ''ur5/gripper'' samplePose
       [''ur5/base_link'', ''no_such_body''] sampleSession =
     (Inl (Error ''Device Robot has no joint with body of name no_such_body''), sampleSession)" .
  have all: "\<forall>n \<in> set [''ur5/base_link''].
      \<exists>a. getJointByBodyName sampleExternal (the (robot sampleSession)) n = Inr (Some a)"
    using sampleSession_base_link by simp
  from t2[THEN conjunct2, THEN conjunct2, THEN conjunct2, THEN iffD2, OF all]
  have b: "fst (addGripper sampleExternal ''ur5/base_link'' ''ur5/gripper'' samplePose
       [''ur5/base_link''] sampleSession) = Inr ()" .
  from a b show ?thesis by (intro conjI)
qed

subsection \<open>Position of a root joint\<close>

lemma list_of_seven:
  "length xs = 7 \<Longrightarrow> [xs ! 0, xs ! 1, xs ! 2, xs ! 3, xs ! 4, xs ! 5, xs ! 6] = xs"
  by (rule nth_equalityI) (auto simp: nth_Cons' less_Suc_eq eval_nat_numeral)

lemma findRootChild_finds:
  "c \<in> set cs \<Longrightarrow> compare_is_0 (jointName (jointAt r c)) 0 (length n) n \<Longrightarrow>
   \<exists>a. findRootChild r cs n = Some a"
  by (induction cs) auto

lemma findRootChild_names:
  "(\<And>c. jointName (jointAt r' c) = jointName (jointAt r c)) \<Longrightarrow>
   findRootChild r' cs n = findRootChild r cs n"
  by (induction cs) auto

lemma findRootChild_first:
  "findRootChild r cs n = Some a \<Longrightarrow>
   \<exists>us vs. cs = us @ a # vs \<and> compare_is_0 (jointName (jointAt r a)) 0 (length n) n \<and>
     (\<forall>u \<in> set us. \<not> compare_is_0 (jointName (jointAt r u)) 0 (length n) n)"
proof (induction cs)
  case Nil
  then show ?case by simp
next
  case (Cons c cs)
  show ?case
  proof (cases "compare_is_0 (jointName (jointAt r c)) 0 (length n) n")
    case True
    with Cons.prems have "a = c" by simp
    with True show ?thesis by (intro exI[of _ "[]"] exI[of _ cs]) simp
  next
    case False
    with Cons obtain us vs where "cs = us @ a # vs"
      "compare_is_0 (jointName (jointAt r a)) 0 (length n) n"
      "\<forall>u \<in> set us. \<not> compare_is_0 (jointName (jointAt r u)) 0 (length n) n"
      by auto
    with False show ?thesis by (intro exI[of _ "c # us"] exI[of _ vs]) simp
  qed
qed

lemma setRootJointPosition_found:
  "robot p = Some r \<Longrightarrow>
   findRootChild r (childJoints (jointAt r (the (rootJoint r)))) n = Some a \<Longrightarrow>
   setRootJointPosition n pos p =
     (Inr (), p\<lparr>robot := Some (r\<lparr>jointStore := (jointStore r)(a \<mapsto>
        (jointAt r a)\<lparr>positionInParentFrame :=
           Transform3f (Quaternion3f (pos ! 3) (pos ! 4) (pos ! 5) (pos ! 6))
             (Vec3f (pos ! 0) (pos ! 1) (pos ! 2))\<rparr>)\<rparr>)\<rparr>)"
  by (simp add: setRootJointPosition_def getRobotOrThrow_def Let_def)

lemma getRootJointPosition_after_set:
  assumes "findRootChild r (childJoints (jointAt r (the (rootJoint r)))) n = Some a"
  shows "getRootJointPosition n (p\<lparr>robot := Some (r\<lparr>jointStore := (jointStore r)(a \<mapsto>
        (jointAt r a)\<lparr>positionInParentFrame :=
           Transform3f (Quaternion3f q0 q1 q2 q3) (Vec3f t0 t1 t2)\<rparr>)\<rparr>)\<rparr>)
     = Inr [t0, t1, t2, q0, q1, q2, q3]"
proof -
  let ?r' = "r\<lparr>jointStore := (jointStore r)(a \<mapsto>
        (jointAt r a)\<lparr>positionInParentFrame :=
           Transform3f (Quaternion3f q0 q1 q2 q3) (Vec3f t0 t1 t2)\<rparr>)\<rparr>"
  have names: "jointName (jointAt ?r' c) = jointName (jointAt r c)" for c
    by (simp add: jointAt_def)
  have kids: "childJoints (jointAt ?r' c) = childJoints (jointAt r c)" for c
    by (simp add: jointAt_def)
  have f: "findRootChild ?r' (childJoints (jointAt ?r' (the (rootJoint ?r')))) n = Some a"
    using assms findRootChild_names[of ?r' r, OF names] by (simp add: kids)
  have pos: "positionInParentFrame (jointAt ?r' a) =
      Transform3f (Quaternion3f q0 q1 q2 q3) (Vec3f t0 t1 t2)"
    by (simp add: jointAt_def)
  show ?thesis
    unfolding getRootJointPosition_def getRobotOrThrow_def Let_def
    using f pos by simp
qed

text \<open>
  Claim C6. When the session has a robot and some child of its root joint has a name
  that starts with \<open>pre\<close>, then for every array \<open>pos\<close> of seven numbers
  \<open>setRootJointPosition pre pos\<close> succeeds and \<open>getRootJointPosition pre\<close> on the session
  it leaves returns \<open>pos\<close>: every component is the number that was written, so within
  any tolerance. Both calls run the same scan and stop at the same child, and the
  numbers are stored and read back without arithmetic.
\<close>

theorem set_then_get_root_joint_position:
  assumes "robot p = Some r"
    and "c \<in> set (childJoints (jointAt r (the (rootJoint r))))"
    and "compare_is_0 (jointName (jointAt r c)) 0 (length pre) pre"
    and "length pos = 7"
  shows "fst (setRootJointPosition pre pos p) = Inr () \<and>
    getRootJointPosition pre (snd (setRootJointPosition pre pos p)) = Inr pos \<and>
    (\<exists>res. getRootJointPosition pre (snd (setRootJointPosition pre pos p)) = Inr res \<and>
       length res = 7 \<and> (\<forall>i<7. \<bar>res ! i - pos ! i\<bar> \<le> 1 / 10 ^ 9))"
proof -
  from findRootChild_finds[OF assms(2,3)] obtain a where
    a: "findRootChild r (childJoints (jointAt r (the (rootJoint r)))) pre = Some a" by blast
  have s: "fst (setRootJointPosition pre pos p) = Inr ()"
    by (simp add: setRootJointPosition_found[OF assms(1) a])
  have g: "getRootJointPosition pre (snd (setRootJointPosition pre pos p)) = Inr pos"
    using list_of_seven[OF assms(4)]
    by (simp add: setRootJointPosition_found[OF assms(1) a] getRootJointPosition_after_set[OF a])
  from s g assms(4) show ?thesis by simp
qed

text \<open>An instance: the joint the sample loader hung under the root.\<close>

theorem set_then_get_root_joint_position_witness:
  "fst (setRootJointPosition ''ur5'' samplePose sampleSession) = Inr () \<and>
   getRootJointPosition ''ur5'' (snd (setRootJointPosition ''ur5'' samplePose sampleSession)) =
     Inr [1, 2, 3, 0, 0, 0, 1]"
proof -
  have r: "robot sampleSession = Some (the (robot sampleSession))"
    by (simp add: sampleSession_robot)
  have c: "1 \<in> set (childJoints (jointAt (the (robot sampleSession))
              (the (rootJoint (the (robot sampleSession))))))"
    by (simp add: sampleSession_robot jointAt_def)
  have m: "compare_is_0 (jointName (jointAt (the (robot sampleSession)) 1)) 0 (length ''ur5'') ''ur5''"
    by (simp add: sampleSession_robot jointAt_def compare_is_0_def)
  have l: "length samplePose = 7" by (simp add: samplePose_def)
  from set_then_get_root_joint_position[OF r c m l]
  show ?thesis by (simp add: samplePose_def)
qed

subsection \<open>Composition of the server\<close>

lemma startup_rbprm:
  assumes "HPP_MANIPULATION_HAS_RBPRM cfg \<noteq> None"
  shows "problemSolverMap (startup cfg ctor) =
      (ctor (SolverPtr 0 ManipulationProblemSolver))
        \<lparr>mapField := (mapField (ctor (SolverPtr 0 ManipulationProblemSolver)))
            (''rbprm'' \<mapsto> SolverPtr 1 CoreProblemSolver)\<rparr>"
    and "bindings (startup cfg ctor) RbprmServer =
      Some (ToProblemSolver (SolverPtr 1 CoreProblemSolver))"
    and "bindings (startup cfg ctor) ManipulationServer = Some ToProblemSolverMap"
    and "bindings (startup cfg ctor) CorbaServer = Some ToProblemSolverMap"
  using assms
  by (simp_all add: startup_def Let_def pp_ifdef_def bind_def call_def map_insert_def)

lemma startup_events:
  "events (startup cfg ctor) =
     [StartCorbaServer CorbaServer []] @
     (if pp_if (HPP_MANIPULATION_HAS_WHOLEBODY_STEP cfg)
      then [StartCorbaServer WholebodyStepServer
              [''hpp'', ''corbaserver'', ''wholebodyStep'', ''problem'']] else []) @
     (if pp_ifdef (HPP_MANIPULATION_HAS_RBPRM cfg)
      then [StartCorbaServer RbprmServer [''hpp'', ''corbaserver'', ''rbprm'']] else []) @
     [StartCorbaServer ManipulationServer [''hpp'', ''corbaserver'', ''manipulation'']]"
  by (simp add: startup_def Let_def bind_def call_def map_insert_def)

lemma main_after_startup:
  "problemSolverMap (main cfg ctor) = problemSolverMap (startup cfg ctor) \<and>
   bindings (main cfg ctor) = bindings (startup cfg ctor) \<and>
   events (main cfg ctor) = events (startup cfg ctor) @ [ProcessRequest True]"
  by (simp add: main_def call_def)

text \<open>
  Claim C9. When the RBPRM module is compiled in, the statements of \<open>main\<close> before the
  request loop create a session of their own (a core problem solver, not the session
  of the primary server), put it into the registry under the name rbprm, and bind the
  RBPRM server to that session itself, while the manipulation server is bound to the
  registry. No request loop has started by then; \<open>main\<close> starts it last and it finds
  the registry so. The insertion changes no other entry and not the selection: unless
  the registry already had rbprm selected, the current session is the one it was.
\<close>

theorem rbprm_session_registered_at_startup:
  assumes "HPP_MANIPULATION_HAS_RBPRM cfg \<noteq> None"
  shows "mapField (problemSolverMap (startup cfg ctor)) ''rbprm'' =
           Some (SolverPtr 1 CoreProblemSolver) \<and>
         (\<forall>n. n \<noteq> ''rbprm'' \<longrightarrow>
            mapField (problemSolverMap (startup cfg ctor)) n =
            mapField (ctor (SolverPtr 0 ManipulationProblemSolver)) n) \<and>
         selectedField (problemSolverMap (startup cfg ctor)) =
           selectedField (ctor (SolverPtr 0 ManipulationProblemSolver)) \<and>
         bindings (startup cfg ctor) RbprmServer =
           Some (ToProblemSolver (SolverPtr 1 CoreProblemSolver)) \<and>
         bindings (startup cfg ctor) ManipulationServer = Some ToProblemSolverMap \<and>
         SolverPtr 1 CoreProblemSolver \<noteq> SolverPtr 0 ManipulationProblemSolver \<and>
         (\<forall>b. ProcessRequest b \<notin> set (events (startup cfg ctor))) \<and>
         events (main cfg ctor) = events (startup cfg ctor) @ [ProcessRequest True] \<and>
         problemSolverMap (main cfg ctor) = problemSolverMap (startup cfg ctor) \<and>
         (selectedField (ctor (SolverPtr 0 ManipulationProblemSolver)) \<noteq> Some ''rbprm'' \<longrightarrow>
            currentSession (problemSolverMap (startup cfg ctor)) =
            currentSession (ctor (SolverPtr 0 ManipulationProblemSolver)))"
proof -
  have ev: "\<forall>b. ProcessRequest b \<notin> set (events (startup cfg ctor))"
    by (simp add: startup_events)
  have cur: "selectedField (ctor (SolverPtr 0 ManipulationProblemSolver)) \<noteq> Some ''rbprm'' \<longrightarrow>
            currentSession (problemSolverMap (startup cfg ctor)) =
            currentSession (ctor (SolverPtr 0 ManipulationProblemSolver))"
    by (auto simp: currentSession_def startup_rbprm(1)[OF assms] split: option.splits)
  show ?thesis
    using ev cur main_after_startup[of cfg ctor]
    by (simp add: startup_rbprm[OF assms])
qed

text \<open>An instance: a registry holding the first session as default, selected.\<close>

theorem rbprm_session_registered_at_startup_witness:
  "HPP_MANIPULATION_HAS_RBPRM sampleConfig \<noteq> None \<and>
   mapField (problemSolverMap (startup sampleConfig sampleRegistry)) ''rbprm'' =
     Some (SolverPtr 1 CoreProblemSolver) \<and>
   bindings (startup sampleConfig sampleRegistry) RbprmServer =
     Some (ToProblemSolver (SolverPtr 1 CoreProblemSolver)) \<and>
   currentSession (problemSolverMap (startup sampleConfig sampleRegistry)) =
     Some (SolverPtr 0 ManipulationProblemSolver)"
proof -
  have d: "HPP_MANIPULATION_HAS_RBPRM sampleConfig \<noteq> None" by (simp add: sampleConfig_def)
  have s: "selectedField (sampleRegistry (SolverPtr 0 ManipulationProblemSolver)) \<noteq> Some ''rbprm''"
    by (simp add: sampleRegistry_def)
  have c: "currentSession (sampleRegistry (SolverPtr 0 ManipulationProblemSolver)) =
      Some (SolverPtr 0 ManipulationProblemSolver)"
    by (simp add: sampleRegistry_def currentSession_def)
  from rbprm_session_registered_at_startup[OF d, of sampleRegistry]
  show ?thesis using d s c by simp
qed

subsection \<open>Selecting a problem\<close>

lemma selectProblem_keeps:
  "mapField m k = Some ps \<Longrightarrow> mapField (snd (selectProblem n m)) k = Some ps"
  by (auto simp: selectProblem_def split: option.splits)

lemma selectAll_keeps:
  "mapField m k = Some ps \<Longrightarrow> mapField (selectAll ns m) k = Some ps"
  by (induction ns arbitrary: m) (simp_all add: selectProblem_keeps)

lemma selectProblem_present:
  "mapField m n = Some ps \<Longrightarrow> selectProblem n m = (False, m\<lparr>selectedField := Some n\<rparr>)"
  by (simp add: selectProblem_def)

lemma selectProblem_absent:
  "mapField m n = None \<Longrightarrow>
   selectProblem n m =
     (True, m\<lparr>mapField := (mapField m)(n \<mapsto> ProblemSolver_create), selectedField := Some n\<rparr>)"
  by (simp add: selectProblem_def)

text \<open>
  Claim C2. \<open>selectProblem n\<close> returns true exactly when the registry has no session
  named \<open>n\<close>; it then adds an empty session under \<open>n\<close>. In either case \<open>n\<close> is
  selected afterwards. After that, whatever names are selected in between, a further
  \<open>selectProblem n\<close> returns false, selects \<open>n\<close>, changes no session of the registry,
  and the current session is the one stored under \<open>n\<close> by the first call.
\<close>

theorem selectProblem_true_exactly_on_first_use:
  "(fst (selectProblem n m) \<longleftrightarrow> mapField m n = None) \<and>
   (mapField m n = None \<longrightarrow>
      mapField (snd (selectProblem n m)) = (mapField m)(n \<mapsto> ProblemSolver_create) \<and>
      currentSession (snd (selectProblem n m)) = Some ProblemSolver_create) \<and>
   selectedField (snd (selectProblem n m)) = Some n \<and>
   (\<forall>ns. fst (selectProblem n (selectAll ns (snd (selectProblem n m)))) = False \<and>
      selectedField (snd (selectProblem n (selectAll ns (snd (selectProblem n m))))) = Some n \<and>
      mapField (snd (selectProblem n (selectAll ns (snd (selectProblem n m))))) =
        mapField (selectAll ns (snd (selectProblem n m))) \<and>
      currentSession (snd (selectProblem n (selectAll ns (snd (selectProblem n m))))) =
        mapField (snd (selectProblem n m)) n)"
proof -
  obtain ps where ps: "mapField (snd (selectProblem n m)) n = Some ps"
    by (cases "mapField m n") (auto simp: selectProblem_def)
  have later: "mapField (selectAll ns (snd (selectProblem n m))) n = Some ps" for ns
    using ps by (rule selectAll_keeps)
  have a: "fst (selectProblem n m) \<longleftrightarrow> mapField m n = None"
    by (cases "mapField m n") (simp_all add: selectProblem_def)
  have b: "mapField m n = None \<longrightarrow>
      mapField (snd (selectProblem n m)) = (mapField m)(n \<mapsto> ProblemSolver_create) \<and>
      currentSession (snd (selectProblem n m)) = Some ProblemSolver_create"
    by (simp add: selectProblem_absent currentSession_def)
  have c: "selectedField (snd (selectProblem n m)) = Some n"
    by (cases "mapField m n") (simp_all add: selectProblem_def)
  show ?thesis
    using a b c ps by (simp add: selectProblem_present[OF later] currentSession_def later)
qed

text \<open>An instance: the empty registry.\<close>

theorem selectProblem_true_exactly_on_first_use_witness:
  "fst (selectProblem ''p1'' \<lparr>mapField = Map.empty, selectedField = None\<rparr>) \<and>
   \<not> fst (selectProblem ''p1'' (selectAll [''p2'', ''p1'']
        (snd (selectProblem ''p1'' \<lparr>mapField = Map.empty, selectedField = None\<rparr>)))) \<and>
   currentSession (snd (selectProblem ''p1'' \<lparr>mapField = Map.empty, selectedField = None\<rparr>)) =
     Some ProblemSolver_create"
proof -
  note t = selectProblem_true_exactly_on_first_use[of "''p1''"
      "\<lparr>mapField = Map.empty, selectedField = None\<rparr>"]
  have e: "mapField \<lparr>mapField = Map.empty, selectedField = None\<rparr> ''p1'' = (None :: ProblemSolver option)"
    by simp
  from t e have a: "fst (selectProblem ''p1'' \<lparr>mapField = Map.empty, selectedField = None\<rparr>)"
    by blast
  from t e have b: "currentSession (snd (selectProblem ''p1''
      \<lparr>mapField = Map.empty, selectedField = None\<rparr>)) = Some ProblemSolver_create"
    by blast
  from t have "\<forall>ns. fst (selectProblem ''p1'' (selectAll ns
        (snd (selectProblem ''p1'' \<lparr>mapField = Map.empty, selectedField = None\<rparr>)))) = False"
    by blast
  then have c: "\<not> fst (selectProblem ''p1'' (selectAll [''p2'', ''p1'']
        (snd (selectProblem ''p1'' \<lparr>mapField = Map.empty, selectedField = None\<rparr>))))"
    by blast
  from a b c show ?thesis by blast
qed

subsection \<open>Grasp constraints\<close>

lemma createGrasp_found:
  "robot p = Some r \<Longrightarrow> grippers r gName = Some g \<Longrightarrow> handles r hName = Some h \<Longrightarrow>
   createGrasp graspName gName hName p =
     (Inr (), p\<lparr>numericalConstraints := (numericalConstraints p)
         (graspName \<mapsto> RelativePose gName hName (map Not (freeDof (handleClass h))),
          graspName @ ''/complement'' \<mapsto> RelativePose gName hName (freeDof (handleClass h)))\<rparr>)"
  by (simp add: createGrasp_def Let_def)

lemma createGrasp_success:
  assumes "createGrasp graspName gName hName p = (Inr (), p')"
  shows "\<exists>r g h. robot p = Some r \<and> grippers r gName = Some g \<and> handles r hName = Some h"
  using assms by (auto simp: createGrasp_def split: option.splits)

text \<open>
  Claim C3. A successful \<open>createGrasp graspName gName hName\<close> on an axial handle adds
  to the constraint map of the session the keys \<open>graspName\<close> and
  \<open>graspName/complement\<close> and no other: every other key keeps its entry, and nothing
  else of the session changes. The first constraint leaves the rotation about x free,
  the second constrains that rotation alone.
\<close>

theorem createGrasp_axial_two_names:
  assumes "createGrasp graspName gName hName p = (Inr (), p')"
    and "robot p = Some r" and "handles r hName = Some h" and "handleClass h = AxialHandle"
  shows "dom (numericalConstraints p') =
           dom (numericalConstraints p) \<union> {graspName, graspName @ ''/complement''} \<and>
         (\<forall>k. k \<noteq> graspName \<and> k \<noteq> graspName @ ''/complement'' \<longrightarrow>
            numericalConstraints p' k = numericalConstraints p k) \<and>
         numericalConstraints p' graspName =
           Some (RelativePose gName hName [True, True, True, False, True, True]) \<and>
         numericalConstraints p' (graspName @ ''/complement'') =
           Some (RelativePose gName hName [False, False, False, True, False, False]) \<and>
         graspName \<noteq> graspName @ ''/complement'' \<and>
         p' = p\<lparr>numericalConstraints := numericalConstraints p'\<rparr>"
proof -
  from createGrasp_success[OF assms(1)] assms(2) obtain g where g: "grippers r gName = Some g"
    by auto
  from assms(1) have p': "p' = p\<lparr>numericalConstraints := (numericalConstraints p)
         (graspName \<mapsto> RelativePose gName hName (map Not (freeDof (handleClass h))),
          graspName @ ''/complement'' \<mapsto> RelativePose gName hName (freeDof (handleClass h)))\<rparr>"
    by (simp add: createGrasp_found[OF assms(2) g assms(3)])
  show ?thesis
    by (auto simp: p' assms(4) freeDof_def)
qed

text \<open>An instance: the session with one gripper and one axial handle.\<close>

theorem createGrasp_axial_two_names_witness:
  "fst (createGrasp ''g'' ''ur5/gripper'' ''box/handle'' sampleGraspSession) = Inr () \<and>
   dom (numericalConstraints
     (snd (createGrasp ''g'' ''ur5/gripper'' ''box/handle'' sampleGraspSession))) =
     {''g'', ''g/complement''}"
proof -
  have r: "robot sampleGraspSession = Some (the (robot sampleGraspSession))"
    by (simp add: sampleGraspSession_def)
  have g: "grippers (the (robot sampleGraspSession)) ''ur5/gripper'' =
      Some (Gripper_create ''ur5/gripper'' 1 sampleTransform [])"
    by (simp add: sampleGraspSession_def)
  have h: "handles (the (robot sampleGraspSession)) ''box/handle'' =
      Some (AxialHandle_create ''box/handle'' sampleTransform 2)"
    by (simp add: sampleGraspSession_def)
  have a: "handleClass (AxialHandle_create ''box/handle'' sampleTransform 2) = AxialHandle"
    by (simp add: AxialHandle_create_def)
  have e: "createGrasp ''g'' ''ur5/gripper'' ''box/handle'' sampleGraspSession =
      (Inr (), snd (createGrasp ''g'' ''ur5/gripper'' ''box/handle'' sampleGraspSession))"
    by (simp add: createGrasp_found[OF r g h])
  have d: "dom (numericalConstraints sampleGraspSession) = {}"
    by (simp add: sampleGraspSession_def ProblemSolver_create_def)
  have f: "fst (createGrasp ''g'' ''ur5/gripper'' ''box/handle'' sampleGraspSession) = Inr ()"
    by (simp add: createGrasp_found[OF r g h])
  have "dom (numericalConstraints
     (snd (createGrasp ''g'' ''ur5/gripper'' ''box/handle'' sampleGraspSession))) =
     dom (numericalConstraints sampleGraspSession) \<union> {''g'', ''g'' @ ''/complement''}"
    by (rule createGrasp_axial_two_names[OF e r h a, THEN conjunct1])
  with f d show ?thesis by simp
qed

subsection \<open>Building and projecting a path\<close>

text \<open>
  Claim C4. If the construction fails, the result is false with both indices -1 and
  the session is unchanged. If the construction succeeds and the projection fails,
  the result is false, \<open>indexNotProj\<close> is the index of the built path, which stays
  appended, and \<open>indexProj\<close> is -1. If both succeed, the result is true, the two
  indices are the distinct positions of the built and of the projected path, and the
  path list has grown by exactly these two entries.
\<close>

theorem buildAndProjectPath_outcomes:
  "(build em e qb qe = None \<longrightarrow>
      buildAndProjectPath em e qb qe p = ((False, - 1, - 1), p)) \<and>
   (\<forall>path. build em e qb qe = Some path \<and> project em e path = None \<longrightarrow>
      buildAndProjectPath em e qb qe p =
        ((False, int (length (paths p)), - 1), p\<lparr>paths := paths p @ [path]\<rparr>) \<and>
      0 \<le> int (length (paths p)) \<and>
      (paths p @ [path]) ! length (paths p) = path) \<and>
   (\<forall>path projPath. build em e qb qe = Some path \<and> project em e path = Some projPath \<longrightarrow>
      buildAndProjectPath em e qb qe p =
        ((True, int (length (paths p)), int (length (paths p)) + 1),
         p\<lparr>paths := paths p @ [path, projPath]\<rparr>) \<and>
      int (length (paths p)) \<noteq> int (length (paths p)) + 1 \<and>
      0 \<le> int (length (paths p)) \<and>
      int (length (paths p)) + 1 < int (length (paths p @ [path, projPath])) \<and>
      length (paths p @ [path, projPath]) = length (paths p) + 2 \<and>
      (paths p @ [path, projPath]) ! length (paths p) = path \<and>
      (paths p @ [path, projPath]) ! (length (paths p) + 1) = projPath)"
  by (simp add: buildAndProjectPath_def Let_def nth_append)

text \<open>An instance: an edge that cannot be built, one that cannot be projected, and one
  where both succeed.\<close>

theorem buildAndProjectPath_outcomes_witness:
  "buildAndProjectPath sampleEdgeMethods 0 [] [] ProblemSolver_create =
     ((False, - 1, - 1), ProblemSolver_create) \<and>
   buildAndProjectPath sampleEdgeMethods 1 [] [] ProblemSolver_create =
     ((False, 0, - 1), ProblemSolver_create\<lparr>paths := [Path 10]\<rparr>) \<and>
   buildAndProjectPath sampleEdgeMethods 2 [] [] ProblemSolver_create =
     ((True, 0, 1), ProblemSolver_create\<lparr>paths := [Path 10, Path 11]\<rparr>)"
proof -
  have b0: "build sampleEdgeMethods 0 [] [] = None"
    and b1: "build sampleEdgeMethods 1 [] [] = Some (Path 10) \<and>
             project sampleEdgeMethods 1 (Path 10) = None"
    and b2: "build sampleEdgeMethods 2 [] [] = Some (Path 10) \<and>
             project sampleEdgeMethods 2 (Path 10) = Some (Path 11)"
    by (simp_all add: sampleEdgeMethods_def)
  have l: "paths ProblemSolver_create = []" by (simp add: ProblemSolver_create_def)
  note t0 = buildAndProjectPath_outcomes[of sampleEdgeMethods 0 "[]" "[]" ProblemSolver_create]
  note t1 = buildAndProjectPath_outcomes[of sampleEdgeMethods 1 "[]" "[]" ProblemSolver_create]
  note t2 = buildAndProjectPath_outcomes[of sampleEdgeMethods 2 "[]" "[]" ProblemSolver_create]
  from t0[THEN conjunct1, THEN mp, OF b0]
  have r0: "buildAndProjectPath sampleEdgeMethods 0 [] [] ProblemSolver_create =
     ((False, - 1, - 1), ProblemSolver_create)" .
  from t1[THEN conjunct2, THEN conjunct1, THEN spec, THEN mp, OF b1]
  have r1: "buildAndProjectPath sampleEdgeMethods 1 [] [] ProblemSolver_create =
     ((False, int (length (paths ProblemSolver_create)), - 1),
      ProblemSolver_create\<lparr>paths := paths ProblemSolver_create @ [Path 10]\<rparr>)"
    by (rule conjunct1)
  from t2[THEN conjunct2, THEN conjunct2, THEN spec, THEN spec, THEN mp, OF b2]
  have r2: "buildAndProjectPath sampleEdgeMethods 2 [] [] ProblemSolver_create =
     ((True, int (length (paths ProblemSolver_create)), int (length (paths ProblemSolver_create)) + 1),
      ProblemSolver_create\<lparr>paths := paths ProblemSolver_create @ [Path 10, Path 11]\<rparr>)"
    by (rule conjunct1)
  from r0 r1 r2 show ?thesis by (simp add: l)
qed

subsection \<open>Further properties of the robot interface\<close>

lemma addAxialHandle_found:
  "robot p = Some r \<Longrightarrow> getJointByBodyName ext r linkName = Inr (Some j) \<Longrightarrow>
   addAxialHandle ext linkName hName localPos p =
     (Inr (), p\<lparr>robot := Some (add_Handle hName
        (AxialHandle_create hName
           (Transform3f (Quaternion3f (localPos ! 3) (localPos ! 4) (localPos ! 5) (localPos ! 6))
              (Vec3f (localPos ! 0) (localPos ! 1) (localPos ! 2))) j) r)\<rparr>)"
  by (simp add: addAxialHandle_def getRobotOrThrow_def getJointByBodyNameOrThrow_def Let_def)

lemma getRootJointPosition_found:
  "robot p = Some r \<Longrightarrow>
   findRootChild r (childJoints (jointAt r (the (rootJoint r)))) n = Some a \<Longrightarrow>
   positionInParentFrame (jointAt r a) = Transform3f (Quaternion3f q0 q1 q2 q3) (Vec3f t0 t1 t2) \<Longrightarrow>
   getRootJointPosition n p = Inr [t0, t1, t2, q0, q1, q2, q3]"
  by (simp add: getRootJointPosition_def getRobotOrThrow_def Let_def)

text \<open>
  The four operations that read a wire transform build the same transform from it:
  elements 3 to 6, in this order, are the four arguments of the quaternion and
  elements 0 to 2 the three arguments of the vector. \<open>getRootJointPosition\<close> writes
  the three numbers of the vector and then the four of the quaternion, in the order
  they are stored.
\<close>

theorem wire_transform_positions:
  assumes "robot p = Some r" and "getJointByBodyName ext r linkName = Inr (Some j)"
    and "\<forall>n \<in> set names. \<exists>k. getJointByBodyName ext r n = Inr k"
    and "findRootChild r (childJoints (jointAt r (the (rootJoint r)))) pre = Some a"
  shows "map_option localPosition
           (handles (the (robot (snd (addHandle ext linkName n pos p)))) n) =
           Some (Transform3f (Quaternion3f (pos ! 3) (pos ! 4) (pos ! 5) (pos ! 6))
                   (Vec3f (pos ! 0) (pos ! 1) (pos ! 2))) \<and>
         map_option localPosition
           (handles (the (robot (snd (addAxialHandle ext linkName n pos p)))) n) =
           Some (Transform3f (Quaternion3f (pos ! 3) (pos ! 4) (pos ! 5) (pos ! 6))
                   (Vec3f (pos ! 0) (pos ! 1) (pos ! 2))) \<and>
         map_option objectPositionInJoint
           (grippers (the (robot (snd (addGripper ext linkName n pos names p)))) n) =
           Some (Transform3f (Quaternion3f (pos ! 3) (pos ! 4) (pos ! 5) (pos ! 6))
                   (Vec3f (pos ! 0) (pos ! 1) (pos ! 2))) \<and>
         positionInParentFrame
           (jointAt (the (robot (snd (setRootJointPosition pre pos p)))) a) =
           Transform3f (Quaternion3f (pos ! 3) (pos ! 4) (pos ! 5) (pos ! 6))
             (Vec3f (pos ! 0) (pos ! 1) (pos ! 2)) \<and>
         getRootJointPosition pre p =
           Inr [Vec3f_at (getTranslation (positionInParentFrame (jointAt r a))) 0,
                Vec3f_at (getTranslation (positionInParentFrame (jointAt r a))) 1,
                Vec3f_at (getTranslation (positionInParentFrame (jointAt r a))) 2,
                Quaternion3f_at (getQuatRotation (positionInParentFrame (jointAt r a))) 0,
                Quaternion3f_at (getQuatRotation (positionInParentFrame (jointAt r a))) 1,
                Quaternion3f_at (getQuatRotation (positionInParentFrame (jointAt r a))) 2,
                Quaternion3f_at (getQuatRotation (positionInParentFrame (jointAt r a))) 3]"
proof -
  have h: "map_option localPosition
           (handles (the (robot (snd (addHandle ext linkName n pos p)))) n) =
           Some (Transform3f (Quaternion3f (pos ! 3) (pos ! 4) (pos ! 5) (pos ! 6))
                   (Vec3f (pos ! 0) (pos ! 1) (pos ! 2)))"
    by (simp add: addHandle_found[OF assms(1,2)] add_Handle_def Handle_create_def)
  have x: "map_option localPosition
           (handles (the (robot (snd (addAxialHandle ext linkName n pos p)))) n) =
           Some (Transform3f (Quaternion3f (pos ! 3) (pos ! 4) (pos ! 5) (pos ! 6))
                   (Vec3f (pos ! 0) (pos ! 1) (pos ! 2)))"
    by (simp add: addAxialHandle_found[OF assms(1,2)] add_Handle_def AxialHandle_create_def)
  have g: "map_option objectPositionInJoint
           (grippers (the (robot (snd (addGripper ext linkName n pos names p)))) n) =
           Some (Transform3f (Quaternion3f (pos ! 3) (pos ! 4) (pos ! 5) (pos ! 6))
                   (Vec3f (pos ! 0) (pos ! 1) (pos ! 2)))"
    by (simp add: addGripper_found[OF assms(1,2,3)] add_Gripper_def Gripper_create_def)
  have s: "positionInParentFrame
           (jointAt (the (robot (snd (setRootJointPosition pre pos p)))) a) =
           Transform3f (Quaternion3f (pos ! 3) (pos ! 4) (pos ! 5) (pos ! 6))
             (Vec3f (pos ! 0) (pos ! 1) (pos ! 2))"
    by (simp add: setRootJointPosition_found[OF assms(1,4)] jointAt_def)
  have e: "getRootJointPosition pre p =
           Inr [Vec3f_at (getTranslation (positionInParentFrame (jointAt r a))) 0,
                Vec3f_at (getTranslation (positionInParentFrame (jointAt r a))) 1,
                Vec3f_at (getTranslation (positionInParentFrame (jointAt r a))) 2,
                Quaternion3f_at (getQuatRotation (positionInParentFrame (jointAt r a))) 0,
                Quaternion3f_at (getQuatRotation (positionInParentFrame (jointAt r a))) 1,
                Quaternion3f_at (getQuatRotation (positionInParentFrame (jointAt r a))) 2,
                Quaternion3f_at (getQuatRotation (positionInParentFrame (jointAt r a))) 3]"
    using assms(1,4) by (simp add: getRootJointPosition_def getRobotOrThrow_def Let_def)
  from h x g s e show ?thesis by (intro conjI)
qed

lemma sampleSession_child:
  "findRootChild (the (robot sampleSession))
     (childJoints (jointAt (the (robot sampleSession))
        (the (rootJoint (the (robot sampleSession)))))) ''ur5'' = Some 1"
  by (simp add: sampleSession_robot jointAt_def compare_is_0_def)

theorem wire_transform_positions_witness:
  "map_option localPosition
     (handles (the (robot (snd (addHandle sampleExternal ''ur5/base_link'' ''h'' [10, 20, 30, 4, 5, 6, 7]
        sampleSession)))) ''h'') =
     Some (Transform3f (Quaternion3f 4 5 6 7) (Vec3f 10 20 30)) \<and>
   getRootJointPosition ''ur5'' sampleSession = Inr [0, 0, 0, 0, 0, 0, 1]"
proof -
  have r: "robot sampleSession = Some (the (robot sampleSession))"
    by (simp add: sampleSession_robot)
  have none: "\<forall>n \<in> set []. \<exists>k.
      getJointByBodyName sampleExternal (the (robot sampleSession)) n = Inr k"
    by simp
  note t = wire_transform_positions[OF r sampleSession_base_link none sampleSession_child,
      of "''h''" "[10, 20, 30, 4, 5, 6, 7]"]
  have pos: "positionInParentFrame (jointAt (the (robot sampleSession)) 1) = sampleTransform"
    by (simp add: sampleSession_robot jointAt_def)
  from t[THEN conjunct1] have a: "map_option localPosition
     (handles (the (robot (snd (addHandle sampleExternal ''ur5/base_link'' ''h'' [10, 20, 30, 4, 5, 6, 7]
        sampleSession)))) ''h'') =
     Some (Transform3f (Quaternion3f 4 5 6 7) (Vec3f 10 20 30))"
    by simp
  from t[THEN conjunct2, THEN conjunct2, THEN conjunct2, THEN conjunct2] pos
  have b: "getRootJointPosition ''ur5'' sampleSession = Inr [0, 0, 0, 0, 0, 0, 1]"
    by (simp add: sampleTransform_def)
  from a b show ?thesis by (intro conjI)
qed

lemma findRootChild_none:
  "(\<forall>c \<in> set cs. \<not> compare_is_0 (jointName (jointAt r c)) 0 (length n) n) \<Longrightarrow>
   findRootChild r cs n = None"
  by (induction cs) auto

lemma findRootChild_append:
  "(\<forall>u \<in> set us. \<not> compare_is_0 (jointName (jointAt r u)) 0 (length n) n) \<Longrightarrow>
   findRootChild r (us @ cs) n = findRootChild r cs n"
  by (induction us) auto

text \<open>
  The scan of the two root joint operations. With a robot on the session: when no
  child of the root has a name starting with the prefix, both operations fail with the
  fault "Root of subtree with the provided prefix not found" and \<open>setRootJointPosition\<close>
  changes nothing; otherwise they work on the first such child in the order of the
  root's children, whatever comes after it.
\<close>

theorem root_joint_operations_take_first_match:
  assumes "robot p = Some r"
  shows "((\<forall>c \<in> set (childJoints (jointAt r (the (rootJoint r)))).
            \<not> compare_is_0 (jointName (jointAt r c)) 0 (length pre) pre) \<longrightarrow>
          getRootJointPosition pre p =
            Inl (Error ''Root of subtree with the provided prefix not found'') \<and>
          setRootJointPosition pre pos p =
            (Inl (Error ''Root of subtree with the provided prefix not found''), p)) \<and>
         (\<forall>us a vs. childJoints (jointAt r (the (rootJoint r))) = us @ a # vs \<and>
            compare_is_0 (jointName (jointAt r a)) 0 (length pre) pre \<and>
            (\<forall>u \<in> set us. \<not> compare_is_0 (jointName (jointAt r u)) 0 (length pre) pre) \<longrightarrow>
          findRootChild r (childJoints (jointAt r (the (rootJoint r)))) pre = Some a \<and>
          fst (setRootJointPosition pre pos p) = Inr () \<and>
          (\<forall>b. b \<noteq> a \<longrightarrow>
             jointStore (the (robot (snd (setRootJointPosition pre pos p)))) b = jointStore r b))"
proof -
  have none: "getRootJointPosition pre p =
            Inl (Error ''Root of subtree with the provided prefix not found'') \<and>
          setRootJointPosition pre pos p =
            (Inl (Error ''Root of subtree with the provided prefix not found''), p)"
    if "\<forall>c \<in> set (childJoints (jointAt r (the (rootJoint r)))).
            \<not> compare_is_0 (jointName (jointAt r c)) 0 (length pre) pre"
    using assms findRootChild_none[OF that]
    by (simp add: getRootJointPosition_def setRootJointPosition_def getRobotOrThrow_def Let_def)
  have some: "findRootChild r (childJoints (jointAt r (the (rootJoint r)))) pre = Some a \<and>
          fst (setRootJointPosition pre pos p) = Inr () \<and>
          (\<forall>b. b \<noteq> a \<longrightarrow>
             jointStore (the (robot (snd (setRootJointPosition pre pos p)))) b = jointStore r b)"
    if "childJoints (jointAt r (the (rootJoint r))) = us @ a # vs"
      and "compare_is_0 (jointName (jointAt r a)) 0 (length pre) pre"
      and "\<forall>u \<in> set us. \<not> compare_is_0 (jointName (jointAt r u)) 0 (length pre) pre"
    for us a vs
  proof -
    have f: "findRootChild r (childJoints (jointAt r (the (rootJoint r)))) pre = Some a"
      using that by (simp add: findRootChild_append)
    show ?thesis
      by (simp add: f setRootJointPosition_found[OF assms f])
  qed
  from none some show ?thesis by blast
qed

theorem root_joint_operations_take_first_match_witness:
  "getRootJointPosition ''box'' sampleSession =
     Inl (Error ''Root of subtree with the provided prefix not found'') \<and>
   setRootJointPosition ''box'' samplePose sampleSession =
     (Inl (Error ''Root of subtree with the provided prefix not found''), sampleSession) \<and>
   fst (setRootJointPosition ''ur5/'' samplePose sampleSession) = Inr ()"
proof -
  have r: "robot sampleSession = Some (the (robot sampleSession))"
    by (simp add: sampleSession_robot)
  have kids: "childJoints (jointAt (the (robot sampleSession))
      (the (rootJoint (the (robot sampleSession))))) = [] @ 1 # []"
    by (simp add: sampleSession_robot jointAt_def)
  have no: "\<forall>c \<in> set (childJoints (jointAt (the (robot sampleSession))
      (the (rootJoint (the (robot sampleSession)))))).
      \<not> compare_is_0 (jointName (jointAt (the (robot sampleSession)) c)) 0 (length ''box'') ''box''"
    by (simp add: sampleSession_robot jointAt_def compare_is_0_def)
  have yes: "compare_is_0 (jointName (jointAt (the (robot sampleSession)) 1)) 0
      (length ''ur5/'') ''ur5/''"
    by (simp add: sampleSession_robot jointAt_def compare_is_0_def)
  have before: "\<forall>u \<in> set []. \<not> compare_is_0 (jointName (jointAt (the (robot sampleSession)) u)) 0
      (length ''ur5/'') ''ur5/''"
    by simp
  note t1 = root_joint_operations_take_first_match[OF r, of "''box''" samplePose]
  note t2 = root_joint_operations_take_first_match[OF r, of "''ur5/''" samplePose]
  from t1[THEN conjunct1, THEN mp, OF no]
  have a: "getRootJointPosition ''box'' sampleSession =
     Inl (Error ''Root of subtree with the provided prefix not found'') \<and>
   setRootJointPosition ''box'' samplePose sampleSession =
     (Inl (Error ''Root of subtree with the provided prefix not found''), sampleSession)" .
  from t2[THEN conjunct2, THEN spec, THEN spec, THEN spec, THEN mp, OF conjI[OF kids conjI[OF yes before]]]
  have b: "fst (setRootJointPosition ''ur5/'' samplePose sampleSession) = Inr ()"
    by (rule conjunct2[THEN conjunct1])
  from a b show ?thesis by simp
qed

text \<open>
  A loader that throws: the insert operation fails with the loader's message and
  \<open>resetProblem\<close> is not called, but the robot that \<open>getOrCreateRobot\<close> created for the
  call stays on the session, in the state the loader left it.
\<close>

theorem insert_failure_keeps_created_robot:
  assumes "srdf_loadRobotModel ext (fst (getOrCreateRobot ext p))
             (rootJoint (fst (getOrCreateRobot ext p))) args = (Inl w, r')"
  shows "insertRobotModel ext args p = (Inl (Error w), p\<lparr>robot := Some r'\<rparr>) \<and>
         resetProblemCalls (snd (insertRobotModel ext args p)) = resetProblemCalls p \<and>
         robot (snd (insertRobotModel ext args p)) \<noteq> None"
  using assms by (simp add: insertRobotModel_insertModel insertModel_cases Let_def)

theorem insert_failure_keeps_created_robot_witness:
  "fst (insertRobotModel failingExternal sampleArgs ProblemSolver_create) =
     Inl (Error ''cannot read urdf'') \<and>
   resetProblemCalls (snd (insertRobotModel failingExternal sampleArgs ProblemSolver_create)) = 0 \<and>
   map_option deviceName
     (robot (snd (insertRobotModel failingExternal sampleArgs ProblemSolver_create))) =
     Some ''Robot''"
proof -
  have l: "srdf_loadRobotModel failingExternal
      (fst (getOrCreateRobot failingExternal ProblemSolver_create))
      (rootJoint (fst (getOrCreateRobot failingExternal ProblemSolver_create))) sampleArgs =
      (Inl ''cannot read urdf'', fst (getOrCreateRobot failingExternal ProblemSolver_create))"
    by (simp add: failingExternal_def)
  have n: "robot ProblemSolver_create = None" by (simp add: ProblemSolver_create_def)
  have d: "deviceName (fst (getOrCreateRobot failingExternal ProblemSolver_create)) = ''Robot''"
    by (simp add: getOrCreateRobot_absent[OF n] created_robot_shape)
  have z: "resetProblemCalls ProblemSolver_create = 0" by (simp add: ProblemSolver_create_def)
  from insert_failure_keeps_created_robot[OF l] d z
  show ?thesis by simp
qed

text \<open>
  The faults of the local checks. Without a robot on the session, each of the five
  operations fails with "Robot not found." and leaves the session as it is. With a
  robot, the three attach operations fail and leave the session as it is when the
  lookup of \<open>linkName\<close> throws (the fault carries the message of the exception) or
  returns the null pointer (the fault is "Joint not found.").
\<close>

theorem local_checks_fault_and_leave_session:
  "(robot p = None \<longrightarrow>
      getRootJointPosition pre p = Inl (Error ''Robot not found.'') \<and>
      setRootJointPosition pre pos p = (Inl (Error ''Robot not found.''), p) \<and>
      addHandle ext linkName n pos p = (Inl (Error ''Robot not found.''), p) \<and>
      addAxialHandle ext linkName n pos p = (Inl (Error ''Robot not found.''), p) \<and>
      addGripper ext linkName n pos names p = (Inl (Error ''Robot not found.''), p)) \<and>
   (\<forall>r w. robot p = Some r \<and> getJointByBodyName ext r linkName = Inl w \<longrightarrow>
      addHandle ext linkName n pos p = (Inl (Error w), p) \<and>
      addAxialHandle ext linkName n pos p = (Inl (Error w), p) \<and>
      addGripper ext linkName n pos names p = (Inl (Error w), p)) \<and>
   (\<forall>r. robot p = Some r \<and> getJointByBodyName ext r linkName = Inr None \<longrightarrow>
      addHandle ext linkName n pos p = (Inl (Error ''Joint not found.''), p) \<and>
      addAxialHandle ext linkName n pos p = (Inl (Error ''Joint not found.''), p) \<and>
      addGripper ext linkName n pos names p = (Inl (Error ''Joint not found.''), p))"
  by (simp add: getRootJointPosition_def setRootJointPosition_def addHandle_def
      addAxialHandle_def addGripper_def getRobotOrThrow_def getJointByBodyNameOrThrow_def)

theorem local_checks_fault_and_leave_session_witness:
  "addGripper sampleExternal ''ur5/base_link'' ''g'' samplePose [] ProblemSolver_create =
     (Inl (Error ''Robot not found.''), ProblemSolver_create) \<and>
   addAxialHandle sampleExternal ''no_such_body'' ''h'' samplePose sampleSession =
     (Inl (Error ''Device Robot has no joint with body of name no_such_body''), sampleSession)"
proof -
  have n: "robot ProblemSolver_create = None" by (simp add: ProblemSolver_create_def)
  have r: "robot sampleSession = Some (the (robot sampleSession)) \<and>
      getJointByBodyName sampleExternal (the (robot sampleSession)) ''no_such_body'' =
        Inl ''Device Robot has no joint with body of name no_such_body''"
    by (rule conjI[OF _ sampleSession_no_such_body]) (simp add: sampleSession_robot)
  note t1 = local_checks_fault_and_leave_session[of ProblemSolver_create "''ur5''" samplePose
      sampleExternal "''ur5/base_link''" "''g''" "[]"]
  note t2 = local_checks_fault_and_leave_session[of sampleSession "''ur5''" samplePose
      sampleExternal "''no_such_body''" "''h''" "[]"]
  from t1[THEN conjunct1, THEN mp, OF n]
  have a: "addGripper sampleExternal ''ur5/base_link'' ''g'' samplePose [] ProblemSolver_create =
     (Inl (Error ''Robot not found.''), ProblemSolver_create)" by simp
  from t2[THEN conjunct2, THEN conjunct1, THEN spec, THEN spec, THEN mp, OF r]
  have b: "addAxialHandle sampleExternal ''no_such_body'' ''h'' samplePose sampleSession =
     (Inl (Error ''Device Robot has no joint with body of name no_such_body''), sampleSession)"
    by simp
  from a b show ?thesis by (intro conjI)
qed

subsection \<open>Listeners of the server process\<close>

text \<open>
  The listeners \<open>main\<close> starts, in order: the primary server, the whole-body module
  when its macro is defined and not zero, the RBPRM module when its macro is defined,
  the manipulation server; the request loop is entered last. The whole-body module,
  when present, is bound to the shared registry.
\<close>

theorem main_starts_listeners_in_order:
  "events (main cfg ctor) =
     [StartCorbaServer CorbaServer []] @
     (if pp_if (HPP_MANIPULATION_HAS_WHOLEBODY_STEP cfg)
      then [StartCorbaServer WholebodyStepServer
              [''hpp'', ''corbaserver'', ''wholebodyStep'', ''problem'']] else []) @
     (if pp_ifdef (HPP_MANIPULATION_HAS_RBPRM cfg)
      then [StartCorbaServer RbprmServer [''hpp'', ''corbaserver'', ''rbprm'']] else []) @
     [StartCorbaServer ManipulationServer [''hpp'', ''corbaserver'', ''manipulation''],
      ProcessRequest True] \<and>
   bindings (main cfg ctor) WholebodyStepServer =
     (if pp_if (HPP_MANIPULATION_HAS_WHOLEBODY_STEP cfg) then Some ToProblemSolverMap else None)"
proof -
  have b: "bindings (startup cfg ctor) WholebodyStepServer =
     (if pp_if (HPP_MANIPULATION_HAS_WHOLEBODY_STEP cfg) then Some ToProblemSolverMap else None)"
    by (simp add: startup_def Let_def bind_def call_def map_insert_def)
  show ?thesis
    using b by (simp add: main_after_startup startup_events)
qed

end
